theory Spec2Isabelle
  imports Complex_Main "HOL-Library.Sublist"
begin

section \<open>Capstone\_Project/app.py: the crop yield prediction form\<close>

text \<open>
  The script is executed from its first line to its last on every interaction with the
  page. One execution is modelled as a function of two inputs: the environment (what the
  four pickle files hold) and the widget state (the values the sidebar controls return and
  whether the button was pressed). Its result is the trace of what it did, in order: the
  Streamlit elements it rendered and the calls it made on the unpickled objects.

  Modelling conventions.
  \<^item> A value a slider returns is an exact rational (\<open>rat\<close>). A float computed by the
    scaler or the model is a \<open>pyfloat\<close>: a finite value, which is an exact rational, or
    negative zero, NaN or an infinity.
  \<^item> An exception is a value of \<open>py_exn\<close>, carrying \<open>str(e)\<close>. Only instances of
    \<open>Exception\<close> are modelled, the ones \<open>except Exception\<close> catches.
  \<^item> The unpickled objects are opaque: their attributes and methods are the fields of a
    record, each method a function from its argument to an exception or a result. A method
    call does not change the object it is called on.
\<close>

subsection \<open>Exceptions\<close>

datatype py_exn =
    FileNotFoundError string  \<comment> \<open>an instance of \<open>FileNotFoundError\<close>\<close>
  | Exception string          \<comment> \<open>any other instance of \<open>Exception\<close>\<close>

fun exn_text :: "py_exn \<Rightarrow> string" where
  "exn_text (FileNotFoundError t) = t"
| "exn_text (Exception t) = t"

subsection \<open>Values and artifacts\<close>

datatype pynum = PyInt int | PyFloat rat

text \<open>A float that comes out of the scaler or the model.\<close>

datatype pyfloat =
    Finite rat   \<comment> \<open>a finite value other than negative zero\<close>
  | NegZero
  | NaN
  | PosInf
  | NegInf

text \<open>\<open>pd.DataFrame(rows, columns=...)\<close>\<close>

record frame =
  columns :: "string list"
  rows :: "pynum list list"

text \<open>
  A label encoder: \<open>classes\<close> is the result of \<open>list(le.classes_)\<close>, which can raise;
  \<open>enc_transform\<close> is \<open>le.transform\<close>. The argument holds \<open>None\<close> when the select box
  had no option to return.
\<close>

record encoder =
  classes :: "py_exn + string list"
  enc_transform :: "string option list \<Rightarrow> py_exn + int list"

record scaler_obj =
  scaler_transform :: "frame \<Rightarrow> py_exn + pyfloat list list"

record model_obj =
  model_predict :: "pyfloat list list \<Rightarrow> py_exn + pyfloat list"

record artifacts =
  model :: model_obj
  scaler :: scaler_obj
  le_area :: encoder
  le_item :: encoder

text \<open>
  The working directory: for each of the four file names, \<open>None\<close> when the file does not
  exist, otherwise what \<open>pickle.load\<close> does with its content.
\<close>

record env =
  crop_yield_model_pkl :: "(py_exn + model_obj) option"
  scaler_pkl :: "(py_exn + scaler_obj) option"
  le_area_pkl :: "(py_exn + encoder) option"
  le_item_pkl :: "(py_exn + encoder) option"

text \<open>The state of the sidebar: what each control returns in this execution.\<close>

record widgets =
  year :: int
  avg_temp :: rat
  rainfall :: rat
  pesticide_tonnes :: rat
  item_sel :: nat   \<comment> \<open>position of the option selected in 'Crop Type'\<close>
  area_sel :: nat   \<comment> \<open>position of the option selected in 'Area/Country'\<close>
  predict_pressed :: bool

subsection \<open>The trace of one execution\<close>

text \<open>
  A piece of a text built from a chosen name. \<open>str.title()\<close> works with the Unicode
  character database, which is not part of the model: on a name outside ASCII the result is
  kept as the application itself, \<open>Str_title\<close> of the name.
\<close>

datatype piece =
    Text string
  | Str_title string

datatype event =
    St_error string
  | St_title string
  | St_markdown string
  | St_subheader "piece list"
  | St_success string
  | St_header string
  | St_markdown_advice string string string rat
      \<comment> \<open>the advisory block: the prediction as \<open>.2f\<close>, the pesticide tonnage and the
          rainfall as \<open>,.0f\<close>, and the temperature, which the text shows as \<open>str\<close> prints it\<close>
  | Sidebar_header string
  | Sidebar_error string
  | Sidebar_number_input string
  | Sidebar_slider string
  | Sidebar_selectbox string "string list"
  | Sidebar_button string
  | Call_le_item_transform "string option list"
  | Call_le_area_transform "string option list"
  | Call_scaler_transform frame
  | Call_model_predict "pyfloat list list"

datatype status =
    Finished  \<comment> \<open>the script ran to its last line\<close>
  | Stopped   \<comment> \<open>\<open>st.stop()\<close> halted it\<close>

record outcome =
  status :: status
  events :: "event list"
  globals :: "artifacts option"
      \<comment> \<open>what \<open>model\<close>, \<open>scaler\<close>, \<open>le_area\<close> and \<open>le_item\<close> are bound to when the
          execution ends; \<open>None\<close> when the loading did not complete\<close>

fun is_call :: "event \<Rightarrow> bool" where
  "is_call (Call_le_item_transform _) = True"
| "is_call (Call_le_area_transform _) = True"
| "is_call (Call_scaler_transform _) = True"
| "is_call (Call_model_predict _) = True"
| "is_call _ = False"

fun is_widget :: "event \<Rightarrow> bool" where
  "is_widget (Sidebar_number_input _) = True"
| "is_widget (Sidebar_slider _) = True"
| "is_widget (Sidebar_selectbox _ _) = True"
| "is_widget (Sidebar_button _) = True"
| "is_widget _ = False"

fun is_error :: "event \<Rightarrow> bool" where
  "is_error (St_error _) = True"
| "is_error (Sidebar_error _) = True"
| "is_error _ = False"

subsection \<open>Formatting\<close>

definition digit :: "nat \<Rightarrow> char" where
  "digit n = ''0123456789'' ! (n mod 10)"

fun dec :: "nat \<Rightarrow> string" where
  "dec n = (if n < 10 then [digit n] else dec (n div 10) @ [digit n])"

declare dec.simps [simp del]

text \<open>Rounding to the nearest integer, a tie to the even one, as float formatting does.\<close>

definition round_half_even :: "rat \<Rightarrow> int" where
  "round_half_even x =
     (let f = \<lfloor>x\<rfloor>; d = x - of_int f
      in if d < 1 / 2 then f else if 1 / 2 < d then f + 1
         else if even f then f else f + 1)"

text \<open>\<open>format(x, '.2f')\<close> for a finite \<open>x\<close> other than negative zero\<close>

definition fixed_2 :: "rat \<Rightarrow> string" where
  "fixed_2 x =
     (let n = nat \<bar>round_half_even (x * 100)\<bar>
      in (if x < 0 then ''-'' else '''') @ dec (n div 100) @ ''.''
           @ [digit (n div 10), digit n])"

text \<open>\<open>format(x, '.2f')\<close>\<close>

fun fmt_2f :: "pyfloat \<Rightarrow> string" where
  "fmt_2f (Finite x) = fixed_2 x"
| "fmt_2f NegZero = ''-0.00''"
| "fmt_2f NaN = ''nan''"
| "fmt_2f PosInf = ''inf''"
| "fmt_2f NegInf = ''-inf''"

fun commas :: "string \<Rightarrow> string" where
  "commas (a # b # c # d # ds) = a # b # c # CHR '','' # commas (d # ds)"
| "commas ds = ds"

text \<open>\<open>format(x, ',.0f')\<close>\<close>

definition fmt_comma_0f :: "rat \<Rightarrow> string" where
  "fmt_comma_0f x =
     (let n = nat \<bar>round_half_even x\<bar>
      in (if x < 0 then ''-'' else '''') @ rev (commas (rev (dec n))))"

text \<open>
  \<open>str.title()\<close> on ASCII text, as CPython computes it: one pass over the characters
  with the flag \<open>previous_is_cased\<close>; a character that follows a letter is lowercased,
  any other character is uppercased. It is applied to ASCII text only.
\<close>

definition is_upper :: "char \<Rightarrow> bool" where
  "is_upper c = (65 \<le> (of_char c :: nat) \<and> (of_char c :: nat) \<le> 90)"

definition is_lower :: "char \<Rightarrow> bool" where
  "is_lower c = (97 \<le> (of_char c :: nat) \<and> (of_char c :: nat) \<le> 122)"

definition is_cased :: "char \<Rightarrow> bool" where
  "is_cased c = (is_upper c \<or> is_lower c)"

definition upper :: "char \<Rightarrow> char" where
  "upper c = (if is_lower c then char_of ((of_char c :: nat) - 32) else c)"

definition lower :: "char \<Rightarrow> char" where
  "lower c = (if is_upper c then char_of ((of_char c :: nat) + 32) else c)"

fun title_from :: "bool \<Rightarrow> string \<Rightarrow> string" where
  "title_from previous_is_cased [] = []"
| "title_from previous_is_cased (c # cs) =
     (if previous_is_cased then lower c else upper c) # title_from (is_cased c) cs"

definition title :: "string \<Rightarrow> string" where
  "title s = title_from False s"

definition is_ascii :: "string \<Rightarrow> bool" where
  "is_ascii s = list_all (\<lambda>c. (of_char c :: nat) < 128) s"

text \<open>\<open>s.title()\<close> for any name\<close>

definition titled :: "string \<Rightarrow> piece" where
  "titled s = (if is_ascii s then Text (title s) else Str_title s)"

subsection \<open>Loading the saved model and encoders (lines 7 to 17)\<close>

definition sq :: string where
  "sq = [CHR 0x27]"

definition nl :: string where
  "nl = [CHR 0x0A]"

text \<open>
  \<open>pickle.load(open(name, 'rb'))\<close>: \<open>open\<close> raises \<open>FileNotFoundError\<close> when there is
  no such file, otherwise \<open>pickle.load\<close> returns the object or raises.
\<close>

definition pickle_load_open :: "string \<Rightarrow> (py_exn + 'a) option \<Rightarrow> py_exn + 'a" where
  "pickle_load_open name file =
     (case file of
        None \<Rightarrow> Inl (FileNotFoundError (''[Errno 2] No such file or directory: '' @ sq @ name @ sq))
      | Some r \<Rightarrow> r)"

text \<open>The body of the first \<open>try\<close>: four loads in order, the first exception ends it.\<close>

definition load_artifacts :: "env \<Rightarrow> py_exn + artifacts" where
  "load_artifacts e =
     (case pickle_load_open ''crop_yield_model.pkl'' (crop_yield_model_pkl e) of
        Inl x \<Rightarrow> Inl x
      | Inr m \<Rightarrow>
     (case pickle_load_open ''scaler.pkl'' (scaler_pkl e) of
        Inl x \<Rightarrow> Inl x
      | Inr s \<Rightarrow>
     (case pickle_load_open ''le_area.pkl'' (le_area_pkl e) of
        Inl x \<Rightarrow> Inl x
      | Inr a \<Rightarrow>
     (case pickle_load_open ''le_item.pkl'' (le_item_pkl e) of
        Inl x \<Rightarrow> Inl x
      | Inr i \<Rightarrow> Inr \<lparr>model = m, scaler = s, le_area = a, le_item = i\<rparr>))))"

definition feature_names :: "string list" where
  "feature_names =
     [''year'', ''average_rain_fall_mm_per_year'', ''avg_temp'', ''pesticide_tonnes'',
      ''area_encoded'', ''item_encoded'']"

subsection \<open>The option lists (lines 35 to 41) and the controls (lines 43 to 48)\<close>

text \<open>
  The result is what the \<open>try\<close> statement rendered, then \<open>area_options\<close>, then
  \<open>item_options\<close>.
\<close>

definition encoder_options :: "artifacts \<Rightarrow> event list \<times> string list \<times> string list" where
  "encoder_options arts =
     (case classes (le_area arts) of
        Inl x \<Rightarrow> ([Sidebar_error ''Error reading encoder classes.''], [''Error''], [''Error''])
      | Inr area_options \<Rightarrow>
     (case classes (le_item arts) of
        Inl x \<Rightarrow> ([Sidebar_error ''Error reading encoder classes.''], [''Error''], [''Error''])
      | Inr item_options \<Rightarrow> ([], area_options, item_options)))"

definition area_options :: "artifacts \<Rightarrow> string list" where
  "area_options arts = fst (snd (encoder_options arts))"

definition item_options :: "artifacts \<Rightarrow> string list" where
  "item_options arts = snd (snd (encoder_options arts))"

text \<open>
  \<open>st.sidebar.selectbox\<close> returns the selected option, and \<open>None\<close> when it has no
  options. The page offers only the listed options, so a position past the end of the list
  does not occur; the model returns \<open>None\<close> there.
\<close>

definition selectbox :: "string list \<Rightarrow> nat \<Rightarrow> string option" where
  "selectbox options' i = (if i < length options' then Some (options' ! i) else None)"

definition item_choice :: "artifacts \<Rightarrow> widgets \<Rightarrow> string option" where
  "item_choice arts w = selectbox (item_options arts) (item_sel w)"

definition area_choice :: "artifacts \<Rightarrow> widgets \<Rightarrow> string option" where
  "area_choice arts w = selectbox (area_options arts) (area_sel w)"

definition controls :: "artifacts \<Rightarrow> event list" where
  "controls arts =
     [Sidebar_number_input ''Year'',
      Sidebar_slider (''Average Temperature ('' @ [CHR 0xC2, CHR 0xB0] @ ''C)''),
      Sidebar_slider ''Average Rainfall (mm/year)'',
      Sidebar_slider ''Pesticide Use (tonnes)'',
      Sidebar_selectbox ''Crop Type'' (item_options arts),
      Sidebar_selectbox ''Area/Country'' (area_options arts)]"

subsection \<open>The prediction (lines 52 to 86)\<close>

text \<open>
  A piece of the \<open>try\<close> body: what it rendered and called before it ended, and either the
  exception that ended it or its value.
\<close>

type_synonym 'a act = "event list \<times> (py_exn + 'a)"

definition emit :: "event \<Rightarrow> unit act" where
  "emit ev = ([ev], Inr ())"

definition call :: "event \<Rightarrow> py_exn + 'a \<Rightarrow> 'a act" where
  "call ev r = ([ev], r)"

definition eval :: "py_exn + 'a \<Rightarrow> 'a act" where
  "eval r = ([], r)"

definition then_do :: "'a act \<Rightarrow> ('a \<Rightarrow> 'b act) \<Rightarrow> 'b act" where
  "then_do m f =
     (case snd m of
        Inl x \<Rightarrow> (fst m, Inl x)
      | Inr v \<Rightarrow> (fst m @ fst (f v), snd (f v)))"

text \<open>\<open>a[0]\<close> on the array a method returned\<close>

definition subscript0 :: "'a list \<Rightarrow> py_exn + 'a" where
  "subscript0 a =
     (case a of
        [] \<Rightarrow> Inl (Exception ''index 0 is out of bounds for axis 0 with size 0'')
      | v # _ \<Rightarrow> Inr v)"

text \<open>\<open>choice.title()\<close>\<close>

definition choice_title :: "string option \<Rightarrow> py_exn + piece" where
  "choice_title choice =
     (case choice of
        None \<Rightarrow> Inl (Exception (sq @ ''NoneType'' @ sq @ '' object has no attribute '' @ sq @ ''title'' @ sq))
      | Some s \<Rightarrow> Inr (titled s))"

definition input_data :: "widgets \<Rightarrow> int \<Rightarrow> int \<Rightarrow> frame" where
  "input_data w area_encoded item_encoded =
     \<lparr>columns = feature_names,
      rows = [[PyInt (year w), PyFloat (rainfall w), PyFloat (avg_temp w),
               PyFloat (pesticide_tonnes w), PyInt area_encoded, PyInt item_encoded]]\<rparr>"

text \<open>The body of the \<open>try\<close> at line 56.\<close>

definition predict_block :: "artifacts \<Rightarrow> widgets \<Rightarrow> unit act" where
  "predict_block arts w =
     then_do (call (Call_le_item_transform [item_choice arts w])
                (enc_transform (le_item arts) [item_choice arts w])) (\<lambda>item_codes.
     then_do (eval (subscript0 item_codes)) (\<lambda>item_encoded.
     then_do (call (Call_le_area_transform [area_choice arts w])
                (enc_transform (le_area arts) [area_choice arts w])) (\<lambda>area_codes.
     then_do (eval (subscript0 area_codes)) (\<lambda>area_encoded.
     then_do (call (Call_scaler_transform (input_data w area_encoded item_encoded))
                (scaler_transform (scaler arts) (input_data w area_encoded item_encoded)))
       (\<lambda>input_data_scaled.
     then_do (call (Call_model_predict input_data_scaled)
                (model_predict (model arts) input_data_scaled)) (\<lambda>prediction.
     then_do (eval (choice_title (item_choice arts w))) (\<lambda>item_title.
     then_do (eval (choice_title (area_choice arts w))) (\<lambda>area_title.
     then_do (emit (St_subheader
                [Text ''Predicted Crop Yield for '', item_title, Text '' in '', area_title,
                 Text '':'']))
       (\<lambda>_.
     then_do (eval (subscript0 prediction)) (\<lambda>p.
     then_do (emit (St_success (''**'' @ fmt_2f p @ '' hg/ha**''))) (\<lambda>_.
     then_do (emit (St_markdown ''---'')) (\<lambda>_.
     then_do (emit (St_header ''How this prediction can help:'')) (\<lambda>_.
     emit (St_markdown_advice (fmt_2f p) (fmt_comma_0f (pesticide_tonnes w))
             (fmt_comma_0f (rainfall w)) (avg_temp w)))))))))))))))"

text \<open>The \<open>try\<close> statement at line 56 with its handler at line 85.\<close>

definition try_predict :: "artifacts \<Rightarrow> widgets \<Rightarrow> event list" where
  "try_predict arts w =
     (case snd (predict_block arts w) of
        Inl e \<Rightarrow> fst (predict_block arts w)
                  @ [St_error (''An error occurred during prediction: '' @ exn_text e)]
      | Inr _ \<Rightarrow> fst (predict_block arts w))"

text \<open>The statement at line 52: the button is rendered, and the body runs when it was pressed.\<close>

definition predict_button :: "artifacts \<Rightarrow> widgets \<Rightarrow> event list" where
  "predict_button arts w =
     Sidebar_button ''Predict Crop Yield'' #
     (if predict_pressed w then
        (if ''Error'' \<in> set (area_options arts)
         then [St_error ''Cannot make prediction. Encoders were not loaded correctly.'']
         else try_predict arts w)
      else [])"

subsection \<open>The script\<close>

definition title_text :: string where
  "title_text = [CHR 0xF0, CHR 0x9F, CHR 0x8C, CHR 0xB1]
     @ '' Crop Yield Prediction for Smallholder Farmers''"

definition intro_text :: string where
  "intro_text = nl
     @ ''This app predicts crop yield (in **hg/ha**) based on environmental and agricultural factors.''
     @ nl
     @ ''Use the sidebar to input data and click '' @ sq @ ''Predict'' @ sq @ '' to see the results.''
     @ nl"

text \<open>Lines 24 to 86, which run once the four objects are loaded.\<close>

definition page :: "artifacts \<Rightarrow> widgets \<Rightarrow> event list" where
  "page arts w =
     [St_title title_text, St_markdown intro_text, Sidebar_header ''Input Features'']
     @ fst (encoder_options arts)
     @ controls arts
     @ predict_button arts w"

definition app :: "env \<Rightarrow> widgets \<Rightarrow> outcome" where
  "app e w =
     (case load_artifacts e of
        Inl (FileNotFoundError t) \<Rightarrow>
          \<lparr>status = Stopped,
           events = [St_error ''Model files not found! Please run the training script first.''],
           globals = None\<rparr>
      | Inl (Exception t) \<Rightarrow>
          \<lparr>status = Stopped,
           events = [St_error (''An error occurred loading files: '' @ t)],
           globals = None\<rparr>
      | Inr arts \<Rightarrow>
          \<lparr>status = Finished, events = page arts w, globals = Some arts\<rparr>)"

subsection \<open>Reading a trace\<close>

text \<open>The frames the scaler was called with, in order.\<close>

fun scaler_inputs :: "event list \<Rightarrow> frame list" where
  "scaler_inputs [] = []"
| "scaler_inputs (Call_scaler_transform fr # evs) = fr # scaler_inputs evs"
| "scaler_inputs (_ # evs) = scaler_inputs evs"

definition is_digit :: "char \<Rightarrow> bool" where
  "is_digit c = (c \<in> set ''0123456789'')"

subsection \<open>What the rendered text is required to show\<close>

text \<open>
  The two requirements on the rendered result, stated on the text alone and independently of
  how the script produces it.

  A text shows a number to exactly two decimal places when it is an optional minus sign, at
  least one digit, a point and two digits, and the number it denotes differs from the given
  one by at most half a hundredth.
\<close>

definition digit_value :: "char \<Rightarrow> nat" where
  "digit_value c = of_char c - 48"

definition read_nat :: "string \<Rightarrow> nat" where
  "read_nat ds = foldl (\<lambda>a c. 10 * a + digit_value c) 0 ds"

definition unsigned_part :: "string \<Rightarrow> string" where
  "unsigned_part s = (case s of [] \<Rightarrow> [] | c # r \<Rightarrow> if c = CHR ''-'' then r else s)"

definition two_decimals :: "string \<Rightarrow> bool" where
  "two_decimals s =
     (let r = unsigned_part s; ip = takeWhile is_digit r; fp = dropWhile is_digit r
      in ip \<noteq> [] \<and> length fp = 3 \<and> hd fp = CHR ''.'' \<and> list_all is_digit (tl fp))"

definition decimal_value :: "string \<Rightarrow> rat" where
  "decimal_value s =
     (let r = unsigned_part s; ip = takeWhile is_digit r; fp = drop (length ip + 1) r;
          v = of_nat (read_nat ip) + of_nat (read_nat fp) / 10 ^ length fp
      in if r = s then v else - v)"

definition shows_to_2_places :: "rat \<Rightarrow> string \<Rightarrow> bool" where
  "shows_to_2_places x s = (two_decimals s \<and> \<bar>decimal_value s - x\<bar> \<le> 1 / 200)"

text \<open>
  A text is the title-cased form of a name when it has the same characters up to the case
  of the letters, no character after a letter is an uppercase letter, and no other
  character is a lowercase letter.
\<close>

definition same_letter :: "char \<Rightarrow> char \<Rightarrow> bool" where
  "same_letter c d =
     (c = d \<or> (is_upper c \<and> (of_char d :: nat) = of_char c + 32)
            \<or> (is_lower c \<and> (of_char d :: nat) + 32 = of_char c))"

definition title_cased_of :: "string \<Rightarrow> string \<Rightarrow> bool" where
  "title_cased_of s t =
     (length t = length s \<and>
      (\<forall>i<length s. same_letter (s ! i) (t ! i) \<and>
         (if 0 < i \<and> is_cased (s ! (i - 1)) then \<not> is_upper (t ! i) else \<not> is_lower (t ! i))))"

subsection \<open>Objects for the examples\<close>

text \<open>
  A fitted label encoder as scikit-learn builds it: the code of a class is its position in
  the class list, and a label outside the list is an error.
\<close>

fun position :: "'a list \<Rightarrow> 'a \<Rightarrow> nat" where
  "position [] y = 0"
| "position (x # xs) y = (if x = y then 0 else Suc (position xs y))"

definition label_encoder :: "string list \<Rightarrow> encoder" where
  "label_encoder cs =
     \<lparr>classes = Inr cs,
      enc_transform = (\<lambda>ys.
        if list_all (\<lambda>y. y \<in> set (map Some cs)) ys
        then Inr (map (\<lambda>y. int (position (map Some cs) y)) ys)
        else Inl (Exception ''y contains previously unseen labels''))\<rparr>"

text \<open>An object that is no encoder: reading its classes fails.\<close>

definition unreadable_encoder :: encoder where
  "unreadable_encoder =
     \<lparr>classes = Inl (Exception ''object has no attribute classes_''),
      enc_transform = (\<lambda>ys. Inl (Exception ''object has no attribute transform''))\<rparr>"

fun num_value :: "pynum \<Rightarrow> rat" where
  "num_value (PyInt n) = of_int n"
| "num_value (PyFloat x) = x"

definition identity_scaler :: scaler_obj where
  "identity_scaler =
     \<lparr>scaler_transform = (\<lambda>fr. Inr (map (map (\<lambda>v. Finite (num_value v))) (rows fr)))\<rparr>"

definition constant_model :: "pyfloat \<Rightarrow> model_obj" where
  "constant_model c = \<lparr>model_predict = (\<lambda>x. Inr (map (\<lambda>row. c) x))\<rparr>"

definition failing_model :: "string \<Rightarrow> model_obj" where
  "failing_model t = \<lparr>model_predict = (\<lambda>x. Inl (Exception t))\<rparr>"

definition example_areas :: "string list" where
  "example_areas = [''Albania'', ''Brazil'', ''Canada'', ''Egypt'', ''India'', ''Kenya'',
                    ''Mexico'', ''Nigeria'']"

definition example_items :: "string list" where
  "example_items = [''Barley'', ''Beans'', ''Cassava'', ''Maize'', ''Potatoes'', ''Wheat'']"

text \<open>The double nearest to 2345.678.\<close>

definition example_prediction :: pyfloat where
  "example_prediction = Finite (161193764751147 / 68719476736)"

definition example_artifacts :: artifacts where
  "example_artifacts =
     \<lparr>model = constant_model example_prediction, scaler = identity_scaler,
      le_area = label_encoder example_areas, le_item = label_encoder example_items\<rparr>"

text \<open>The working directory in which the four files hold the given objects.\<close>

definition env_of :: "artifacts \<Rightarrow> env" where
  "env_of arts =
     \<lparr>crop_yield_model_pkl = Some (Inr (model arts)), scaler_pkl = Some (Inr (scaler arts)),
      le_area_pkl = Some (Inr (le_area arts)), le_item_pkl = Some (Inr (le_item arts))\<rparr>"

definition example_widgets :: widgets where
  "example_widgets =
     \<lparr>year = 2024, avg_temp = 20, rainfall = 1200, pesticide_tonnes = 50000,
      item_sel = 3, area_sel = 7, predict_pressed = True\<rparr>"

definition unreadable_artifacts :: artifacts where
  "unreadable_artifacts =
     \<lparr>model = constant_model (Finite 1), scaler = identity_scaler,
      le_area = label_encoder example_areas, le_item = unreadable_encoder\<rparr>"

definition failing_artifacts :: artifacts where
  "failing_artifacts =
     \<lparr>model = failing_model ''X has 6 features, but LinearRegression is expecting 5 features as input.'',
      scaler = identity_scaler,
      le_area = label_encoder example_areas, le_item = label_encoder example_items\<rparr>"

definition scaler_missing_env :: env where
  "scaler_missing_env = (env_of example_artifacts)\<lparr>scaler_pkl := None\<rparr>"

definition error_class_artifacts :: artifacts where
  "error_class_artifacts =
     \<lparr>model = constant_model example_prediction, scaler = identity_scaler,
      le_area = label_encoder [''Error'', ''Kenya''], le_item = label_encoder example_items\<rparr>"

definition kenya_widgets :: widgets where
  "kenya_widgets = example_widgets\<lparr>area_sel := 1\<rparr>"

definition corrupt_model_env :: env where
  "corrupt_model_env =
     (env_of example_artifacts)\<lparr>crop_yield_model_pkl := Some (Inl (Exception ''invalid load key''))\<rparr>"

definition error_area_artifacts :: artifacts where
  "error_area_artifacts =
     \<lparr>model = constant_model example_prediction, scaler = identity_scaler,
      le_area = label_encoder [''Error''], le_item = label_encoder example_items\<rparr>"

definition error_item_artifacts :: artifacts where
  "error_item_artifacts =
     \<lparr>model = constant_model example_prediction, scaler = identity_scaler,
      le_area = label_encoder example_areas, le_item = label_encoder [''Error'']\<rparr>"

text \<open>Encoders fitted on names in lower case, and a model that returns NaN.\<close>

definition lowercase_artifacts :: artifacts where
  "lowercase_artifacts =
     \<lparr>model = constant_model example_prediction, scaler = identity_scaler,
      le_area = label_encoder [''kenya'', ''new zealand''],
      le_item = label_encoder [''maize'', ''rice, paddy'']\<rparr>"

definition second_widgets :: widgets where
  "second_widgets = example_widgets\<lparr>item_sel := 1, area_sel := 1\<rparr>"

definition nan_artifacts :: artifacts where
  "nan_artifacts =
     \<lparr>model = constant_model NaN, scaler = identity_scaler,
      le_area = label_encoder example_areas, le_item = label_encoder example_items\<rparr>"

section \<open>Properties\<close>

subsection \<open>Auxiliary facts\<close>

lemma then_do_call:
  "then_do (call ev r) f = (case r of Inl x \<Rightarrow> ([ev], Inl x) | Inr v \<Rightarrow> apfst ((#) ev) (f v))"
  by (cases r) (simp_all add: then_do_def call_def apfst_def map_prod_def split_beta)

lemma then_do_eval:
  "then_do (eval r) f = (case r of Inl x \<Rightarrow> ([], Inl x) | Inr v \<Rightarrow> f v)"
  by (cases r) (simp_all add: then_do_def eval_def)

lemma then_do_emit: "then_do (emit ev) f = apfst ((#) ev) (f ())"
  by (simp add: then_do_def emit_def apfst_def map_prod_def split_beta)

lemma fst_emit: "fst (emit ev) = [ev]"
  by (simp add: emit_def)

lemma snd_emit: "snd (emit ev) = Inr ()"
  by (simp add: emit_def)

lemmas act_simps = then_do_call then_do_eval then_do_emit fst_emit snd_emit

lemma predict_block_calls_scaler:
  assumes "Call_scaler_transform fr \<in> set (fst (predict_block arts w))"
  shows "\<exists>area_codes item_codes.
           enc_transform (le_item arts) [item_choice arts w] = Inr item_codes \<and> item_codes \<noteq> [] \<and>
           enc_transform (le_area arts) [area_choice arts w] = Inr area_codes \<and> area_codes \<noteq> [] \<and>
           fr = input_data w (hd area_codes) (hd item_codes)"
  using assms
  by (auto simp: predict_block_def act_simps subscript0_def
      split: sum.splits list.splits)

lemma predict_block_success:
  assumes "snd (predict_block arts w) = Inr u"
  shows "\<exists>item_encoded item_codes area_encoded area_codes scaled p ps item area.
           enc_transform (le_item arts) [item_choice arts w] = Inr (item_encoded # item_codes) \<and>
           enc_transform (le_area arts) [area_choice arts w] = Inr (area_encoded # area_codes) \<and>
           scaler_transform (scaler arts) (input_data w area_encoded item_encoded) = Inr scaled \<and>
           model_predict (model arts) scaled = Inr (p # ps) \<and>
           item_choice arts w = Some item \<and> area_choice arts w = Some area \<and>
           fst (predict_block arts w) =
             [Call_le_item_transform [item_choice arts w],
              Call_le_area_transform [area_choice arts w],
              Call_scaler_transform (input_data w area_encoded item_encoded),
              Call_model_predict scaled,
              St_subheader [Text ''Predicted Crop Yield for '', titled item, Text '' in '',
                            titled area, Text '':''],
              St_success (''**'' @ fmt_2f p @ '' hg/ha**''),
              St_markdown ''---'',
              St_header ''How this prediction can help:'',
              St_markdown_advice (fmt_2f p) (fmt_comma_0f (pesticide_tonnes w))
                (fmt_comma_0f (rainfall w)) (avg_temp w)]"
  using assms
  by (auto simp: predict_block_def act_simps subscript0_def choice_title_def
      split: sum.splits list.splits option.splits)

lemma scaler_inputs_append: "scaler_inputs (xs @ ys) = scaler_inputs xs @ scaler_inputs ys"
  by (induction xs rule: scaler_inputs.induct) simp_all

lemma app_loaded:
  "load_artifacts e = Inr arts \<Longrightarrow>
   app e w = \<lparr>status = Finished, events = page arts w, globals = Some arts\<rparr>"
  by (simp add: app_def)

lemma encoder_options_unreadable:
  "classes (le_area arts) = Inl x \<or> classes (le_item arts) = Inl x \<Longrightarrow>
   encoder_options arts = ([Sidebar_error ''Error reading encoder classes.''], [''Error''], [''Error''])"
  by (auto simp: encoder_options_def split: sum.splits)

lemma encoder_options_readable:
  "classes (le_area arts) = Inr a \<Longrightarrow> classes (le_item arts) = Inr i \<Longrightarrow>
   encoder_options arts = ([], a, i)"
  by (simp add: encoder_options_def)

lemma controls_no_call: "filter is_call (controls arts) = []"
  by (simp add: controls_def)

lemma controls_no_scaler: "scaler_inputs (controls arts) = []"
  by (simp add: controls_def)

lemma fst_encoder_options_no_call: "filter is_call (fst (encoder_options arts)) = []"
  by (simp add: encoder_options_def split: sum.splits)

lemma fst_encoder_options_no_scaler: "scaler_inputs (fst (encoder_options arts)) = []"
  by (simp add: encoder_options_def split: sum.splits)

lemma predict_block_scaler_inputs:
  assumes "enc_transform (le_item arts) [item_choice arts w] = Inr (i # irest)"
    and "enc_transform (le_area arts) [area_choice arts w] = Inr (a # arest)"
  shows "scaler_inputs (fst (predict_block arts w)) = [input_data w a i]"
  using assms
  by (auto simp: predict_block_def act_simps subscript0_def
      split: sum.splits list.splits)

lemma try_predict_scaler_inputs:
  "scaler_inputs (try_predict arts w) = scaler_inputs (fst (predict_block arts w))"
  by (simp add: try_predict_def scaler_inputs_append split: sum.splits)

lemma try_predict_calls_scaler:
  "Call_scaler_transform fr \<in> set (try_predict arts w) \<Longrightarrow>
   Call_scaler_transform fr \<in> set (fst (predict_block arts w))"
  by (auto simp: try_predict_def split: sum.splits)

lemma page_calls_scaler:
  "Call_scaler_transform fr \<in> set (page arts w) \<Longrightarrow>
   Call_scaler_transform fr \<in> set (fst (predict_block arts w))"
  by (auto simp: page_def predict_button_def controls_def encoder_options_def
      dest: try_predict_calls_scaler split: sum.splits if_splits)

lemma app_calls_scaler:
  assumes "Call_scaler_transform fr \<in> set (events (app e w))"
  shows "\<exists>arts. load_artifacts e = Inr arts \<and> Call_scaler_transform fr \<in> set (page arts w)"
proof (cases "load_artifacts e")
  case (Inl x)
  with assms show ?thesis by (cases x) (simp_all add: app_def)
next
  case (Inr arts)
  with assms show ?thesis by (simp add: app_def)
qed

lemma load_env_of: "load_artifacts (env_of arts) = Inr arts"
  by (simp add: load_artifacts_def env_of_def pickle_load_open_def)

lemmas example_defs = example_artifacts_def example_widgets_def example_areas_def
  example_items_def label_encoder_def identity_scaler_def constant_model_def
  area_options_def item_options_def encoder_options_def area_choice_def item_choice_def
  selectbox_def

lemma example_area_choice: "area_choice example_artifacts example_widgets = Some ''Nigeria''"
  by (simp add: example_defs)

lemma example_item_choice: "item_choice example_artifacts example_widgets = Some ''Maize''"
  by (simp add: example_defs)

lemma example_area_code: "enc_transform (le_area example_artifacts) [Some ''Nigeria''] = Inr [7]"
  by (simp add: example_defs)

lemma example_item_code: "enc_transform (le_item example_artifacts) [Some ''Maize''] = Inr [3]"
  by (simp add: example_defs)

lemma example_guard: "''Error'' \<notin> set (area_options example_artifacts)"
  by (simp add: example_defs)

lemma scaler_inputs_mem: "fr \<in> set (scaler_inputs evs) \<Longrightarrow> Call_scaler_transform fr \<in> set evs"
  by (induction evs rule: scaler_inputs.induct) auto

subsection \<open>The feature vector\<close>

text \<open>
  C1. Whenever the scaler is called, its argument is the one-row frame whose columns are the
  six feature names and whose row is, in this order, the year, the rainfall, the average
  temperature, the pesticide tonnage, the first code the area encoder returned for the chosen
  area and the first code the item encoder returned for the chosen item. In particular, for
  the inputs 2024, 1200.0, 20.0, 50000.0, "Nigeria" and "Maize", with the area encoder
  mapping "Nigeria" to 7 and the item encoder mapping "Maize" to 3, the scaler is called
  exactly once, with the row 2024, 1200.0, 20.0, 50000.0, 7, 3.
\<close>

theorem feature_vector_order:
  "(Call_scaler_transform fr \<in> set (events (app e w)) \<longrightarrow>
      (\<exists>arts area_encoded area_codes item_encoded item_codes.
         load_artifacts e = Inr arts \<and>
         enc_transform (le_area arts) [area_choice arts w] = Inr (area_encoded # area_codes) \<and>
         enc_transform (le_item arts) [item_choice arts w] = Inr (item_encoded # item_codes) \<and>
         fr = \<lparr>columns = [''year'', ''average_rain_fall_mm_per_year'', ''avg_temp'',
                           ''pesticide_tonnes'', ''area_encoded'', ''item_encoded''],
               rows = [[PyInt (year w), PyFloat (rainfall w), PyFloat (avg_temp w),
                        PyFloat (pesticide_tonnes w), PyInt area_encoded, PyInt item_encoded]]\<rparr>))
   \<and>
   (load_artifacts e = Inr arts' \<and> predict_pressed w \<and> ''Error'' \<notin> set (area_options arts') \<and>
    year w = 2024 \<and> rainfall w = 1200 \<and> avg_temp w = 20 \<and> pesticide_tonnes w = 50000 \<and>
    area_choice arts' w = Some ''Nigeria'' \<and> item_choice arts' w = Some ''Maize'' \<and>
    enc_transform (le_area arts') [Some ''Nigeria''] = Inr [7] \<and>
    enc_transform (le_item arts') [Some ''Maize''] = Inr [3] \<longrightarrow>
      scaler_inputs (events (app e w)) =
        [\<lparr>columns = feature_names,
          rows = [[PyInt 2024, PyFloat 1200, PyFloat 20, PyFloat 50000, PyInt 7, PyInt 3]]\<rparr>])"
proof (intro conjI impI)
  assume "Call_scaler_transform fr \<in> set (events (app e w))"
  then obtain arts where l: "load_artifacts e = Inr arts"
    and "Call_scaler_transform fr \<in> set (page arts w)"
    using app_calls_scaler by blast
  then have "Call_scaler_transform fr \<in> set (fst (predict_block arts w))"
    by (simp add: page_calls_scaler)
  then obtain area_codes item_codes where
    c: "enc_transform (le_item arts) [item_choice arts w] = Inr item_codes" "item_codes \<noteq> []"
       "enc_transform (le_area arts) [area_choice arts w] = Inr area_codes" "area_codes \<noteq> []"
       "fr = input_data w (hd area_codes) (hd item_codes)"
    using predict_block_calls_scaler by blast
  from c(2) c(4) obtain i irest a arest where "item_codes = i # irest" "area_codes = a # arest"
    by (cases item_codes; cases area_codes) auto
  with l c show "\<exists>arts area_encoded area_codes item_encoded item_codes.
         load_artifacts e = Inr arts \<and>
         enc_transform (le_area arts) [area_choice arts w] = Inr (area_encoded # area_codes) \<and>
         enc_transform (le_item arts) [item_choice arts w] = Inr (item_encoded # item_codes) \<and>
         fr = \<lparr>columns = [''year'', ''average_rain_fall_mm_per_year'', ''avg_temp'',
                           ''pesticide_tonnes'', ''area_encoded'', ''item_encoded''],
               rows = [[PyInt (year w), PyFloat (rainfall w), PyFloat (avg_temp w),
                        PyFloat (pesticide_tonnes w), PyInt area_encoded, PyInt item_encoded]]\<rparr>"
    by (simp add: input_data_def feature_names_def)
next
  assume h: "load_artifacts e = Inr arts' \<and> predict_pressed w \<and> ''Error'' \<notin> set (area_options arts') \<and>
    year w = 2024 \<and> rainfall w = 1200 \<and> avg_temp w = 20 \<and> pesticide_tonnes w = 50000 \<and>
    area_choice arts' w = Some ''Nigeria'' \<and> item_choice arts' w = Some ''Maize'' \<and>
    enc_transform (le_area arts') [Some ''Nigeria''] = Inr [7] \<and>
    enc_transform (le_item arts') [Some ''Maize''] = Inr [3]"
  then have "scaler_inputs (fst (predict_block arts' w)) = [input_data w 7 3]"
    by (intro predict_block_scaler_inputs) simp_all
  with h show "scaler_inputs (events (app e w)) =
        [\<lparr>columns = feature_names,
          rows = [[PyInt 2024, PyFloat 1200, PyFloat 20, PyFloat 50000, PyInt 7, PyInt 3]]\<rparr>]"
    by (simp add: app_loaded page_def predict_button_def scaler_inputs_append
        controls_no_scaler fst_encoder_options_no_scaler try_predict_scaler_inputs input_data_def)
qed

theorem feature_vector_order_witness:
  "scaler_inputs (events (app (env_of example_artifacts) example_widgets)) =
     [\<lparr>columns = feature_names,
       rows = [[PyInt 2024, PyFloat 1200, PyFloat 20, PyFloat 50000, PyInt 7, PyInt 3]]\<rparr>]
   \<and> Call_scaler_transform
        \<lparr>columns = feature_names,
         rows = [[PyInt 2024, PyFloat 1200, PyFloat 20, PyFloat 50000, PyInt 7, PyInt 3]]\<rparr>
       \<in> set (events (app (env_of example_artifacts) example_widgets))"
proof -
  have w: "predict_pressed example_widgets" "year example_widgets = 2024"
    "rainfall example_widgets = 1200" "avg_temp example_widgets = 20"
    "pesticide_tonnes example_widgets = 50000"
    by (simp_all add: example_widgets_def)
  have "scaler_inputs (events (app (env_of example_artifacts) example_widgets)) =
     [\<lparr>columns = feature_names,
       rows = [[PyInt 2024, PyFloat 1200, PyFloat 20, PyFloat 50000, PyInt 7, PyInt 3]]\<rparr>]"
    using feature_vector_order
      [of "\<lparr>columns = feature_names,
            rows = [[PyInt 2024, PyFloat 1200, PyFloat 20, PyFloat 50000, PyInt 7, PyInt 3]]\<rparr>"
          "env_of example_artifacts" example_widgets example_artifacts]
      load_env_of w example_area_choice example_item_choice example_area_code
      example_item_code example_guard
    by simp
  then show ?thesis
    by (simp add: scaler_inputs_mem)
qed

lemma predict_button_blocked:
  "''Error'' \<in> set (area_options arts) \<Longrightarrow>
   predict_button arts w =
     Sidebar_button ''Predict Crop Yield'' #
     (if predict_pressed w
      then [St_error ''Cannot make prediction. Encoders were not loaded correctly.'']
      else [])"
  by (simp add: predict_button_def)

lemma page_blocked_no_call:
  "''Error'' \<in> set (area_options arts) \<Longrightarrow> filter is_call (page arts w) = []"
  by (simp add: page_def predict_button_blocked controls_no_call fst_encoder_options_no_call)

subsection \<open>Unreadable encoder classes\<close>

text \<open>
  C2. If reading the class list of either encoder fails, both option lists are the one-element
  list "Error", and every execution in which the button is pressed ends with the message
  that no prediction can be made; no execution calls an encoder, the scaler or the model.
\<close>

theorem unreadable_classes_short_circuit:
  assumes "load_artifacts e = Inr arts"
    and "classes (le_area arts) = Inl x \<or> classes (le_item arts) = Inl x"
  shows "area_options arts = [''Error''] \<and> item_options arts = [''Error''] \<and>
         (predict_pressed w \<longrightarrow>
            events (app e w) =
              [St_title title_text, St_markdown intro_text, Sidebar_header ''Input Features'',
               Sidebar_error ''Error reading encoder classes.'']
              @ controls arts
              @ [Sidebar_button ''Predict Crop Yield'',
                 St_error ''Cannot make prediction. Encoders were not loaded correctly.'']) \<and>
         filter is_call (events (app e w)) = []"
proof -
  from assms(2) have o: "encoder_options arts =
      ([Sidebar_error ''Error reading encoder classes.''], [''Error''], [''Error''])"
    by (rule encoder_options_unreadable)
  then have a: "area_options arts = [''Error'']" and i: "item_options arts = [''Error'']"
    by (simp_all add: area_options_def item_options_def)
  from a have b: "''Error'' \<in> set (area_options arts)" by simp
  have ev: "events (app e w) = page arts w"
    using assms(1) by (simp add: app_loaded)
  from b have "filter is_call (page arts w) = []"
    by (rule page_blocked_no_call)
  moreover have "predict_pressed w \<longrightarrow> page arts w =
              [St_title title_text, St_markdown intro_text, Sidebar_header ''Input Features'',
               Sidebar_error ''Error reading encoder classes.'']
              @ controls arts
              @ [Sidebar_button ''Predict Crop Yield'',
                 St_error ''Cannot make prediction. Encoders were not loaded correctly.'']"
    using b o by (simp add: page_def predict_button_blocked)
  ultimately show ?thesis using a i ev by simp
qed

theorem unreadable_classes_short_circuit_witness:
  "load_artifacts (env_of unreadable_artifacts) = Inr unreadable_artifacts \<and>
   classes (le_item unreadable_artifacts) = Inl (Exception ''object has no attribute classes_'') \<and>
   predict_pressed example_widgets \<and>
   area_options unreadable_artifacts = [''Error''] \<and>
   item_options unreadable_artifacts = [''Error''] \<and>
   events (app (env_of unreadable_artifacts) example_widgets) =
     [St_title title_text, St_markdown intro_text, Sidebar_header ''Input Features'',
      Sidebar_error ''Error reading encoder classes.'',
      Sidebar_number_input ''Year'',
      Sidebar_slider (''Average Temperature ('' @ [CHR 0xC2, CHR 0xB0] @ ''C)''),
      Sidebar_slider ''Average Rainfall (mm/year)'',
      Sidebar_slider ''Pesticide Use (tonnes)'',
      Sidebar_selectbox ''Crop Type'' [''Error''],
      Sidebar_selectbox ''Area/Country'' [''Error''],
      Sidebar_button ''Predict Crop Yield'',
      St_error ''Cannot make prediction. Encoders were not loaded correctly.''] \<and>
   filter is_call (events (app (env_of unreadable_artifacts) example_widgets)) = []"
proof -
  have c: "classes (le_item unreadable_artifacts) = Inl (Exception ''object has no attribute classes_'')"
    by (simp add: unreadable_artifacts_def unreadable_encoder_def)
  have p: "predict_pressed example_widgets"
    by (simp add: example_widgets_def)
  from unreadable_classes_short_circuit [OF load_env_of disjI2, OF c, of example_widgets] p c
  show ?thesis
    by (simp add: load_env_of controls_def)
qed

lemma try_predict_raised:
  "snd (predict_block arts w) = Inl x \<Longrightarrow>
   try_predict arts w = fst (predict_block arts w)
     @ [St_error (''An error occurred during prediction: '' @ exn_text x)]"
  by (simp add: try_predict_def)

text \<open>An exception of any of the calls of the block is the exception of the block.\<close>

lemma predict_block_raises:
  "enc_transform (le_item arts) [item_choice arts w] = Inl x \<Longrightarrow>
     snd (predict_block arts w) = Inl x"
  "enc_transform (le_item arts) [item_choice arts w] = Inr (i # irest) \<Longrightarrow>
   enc_transform (le_area arts) [area_choice arts w] = Inl x \<Longrightarrow>
     snd (predict_block arts w) = Inl x"
  "enc_transform (le_item arts) [item_choice arts w] = Inr (i # irest) \<Longrightarrow>
   enc_transform (le_area arts) [area_choice arts w] = Inr (a # arest) \<Longrightarrow>
   scaler_transform (scaler arts) (input_data w a i) = Inl x \<Longrightarrow>
     snd (predict_block arts w) = Inl x"
  "enc_transform (le_item arts) [item_choice arts w] = Inr (i # irest) \<Longrightarrow>
   enc_transform (le_area arts) [area_choice arts w] = Inr (a # arest) \<Longrightarrow>
   scaler_transform (scaler arts) (input_data w a i) = Inr scaled \<Longrightarrow>
   model_predict (model arts) scaled = Inl x \<Longrightarrow>
     snd (predict_block arts w) = Inl x"
  by (simp_all add: predict_block_def act_simps subscript0_def)

subsection \<open>Exceptions during a prediction\<close>

text \<open>
  C3. When the objects are loaded, the button is pressed and the guard lets the prediction
  run, an exception raised anywhere in the body of the \<open>try\<close> (by either encoder, the
  scaler, the model, or an index or attribute access on their results) is caught: the
  script runs to its end, the last element it renders is an error whose text ends with the
  text of the exception, and the four loaded objects are bound as they were loaded.
\<close>

theorem prediction_exception_caught:
  assumes "load_artifacts e = Inr arts"
    and "predict_pressed w"
    and "''Error'' \<notin> set (area_options arts)"
    and "snd (predict_block arts w) = Inl x"
  shows "status (app e w) = Finished \<and>
         globals (app e w) = Some arts \<and>
         events (app e w) =
           [St_title title_text, St_markdown intro_text, Sidebar_header ''Input Features'']
           @ fst (encoder_options arts) @ controls arts
           @ [Sidebar_button ''Predict Crop Yield'']
           @ fst (predict_block arts w)
           @ [St_error (''An error occurred during prediction: '' @ exn_text x)] \<and>
         sublist (exn_text x) (''An error occurred during prediction: '' @ exn_text x)"
proof -
  have "sublist (exn_text x) (''An error occurred during prediction: '' @ exn_text x)"
    by (rule sublist_append_leftI)
  then show ?thesis
    using assms by (simp add: app_loaded page_def predict_button_def try_predict_raised)
qed

lemma failing_block:
  "predict_block failing_artifacts example_widgets =
     ([Call_le_item_transform [Some ''Maize''], Call_le_area_transform [Some ''Nigeria''],
       Call_scaler_transform
         \<lparr>columns = feature_names,
          rows = [[PyInt 2024, PyFloat 1200, PyFloat 20, PyFloat 50000, PyInt 7, PyInt 3]]\<rparr>,
       Call_model_predict
         [[Finite 2024, Finite 1200, Finite 20, Finite 50000, Finite 7, Finite 3]]],
      Inl (Exception ''X has 6 features, but LinearRegression is expecting 5 features as input.''))"
  by (simp add: predict_block_def act_simps subscript0_def failing_artifacts_def
      example_defs input_data_def failing_model_def)

theorem prediction_exception_caught_witness:
  "status (app (env_of failing_artifacts) example_widgets) = Finished \<and>
   globals (app (env_of failing_artifacts) example_widgets) = Some failing_artifacts \<and>
   last (events (app (env_of failing_artifacts) example_widgets)) =
     St_error (''An error occurred during prediction: ''
        @ ''X has 6 features, but LinearRegression is expecting 5 features as input.'')"
proof -
  have p: "predict_pressed example_widgets"
    by (simp add: example_widgets_def)
  have g: "''Error'' \<notin> set (area_options failing_artifacts)"
    by (simp add: failing_artifacts_def example_defs)
  have r: "snd (predict_block failing_artifacts example_widgets) =
      Inl (Exception ''X has 6 features, but LinearRegression is expecting 5 features as input.'')"
    by (simp add: failing_block)
  from prediction_exception_caught [OF load_env_of p g r]
  show ?thesis by simp
qed

lemma missing_file_load:
  assumes "crop_yield_model_pkl e = None \<or> scaler_pkl e = None \<or>
           le_area_pkl e = None \<or> le_item_pkl e = None"
  shows "\<exists>x. load_artifacts e = Inl x"
  using assms
  by (auto simp: load_artifacts_def pickle_load_open_def split: sum.splits option.splits)

lemma load_failed_stops:
  assumes "load_artifacts e = Inl x"
  shows "status (app e w) = Stopped \<and> globals (app e w) = None \<and>
         (\<exists>m. events (app e w) = [St_error m])"
  using assms by (cases x) (simp_all add: app_def)

subsection \<open>Missing files\<close>

text \<open>
  C5. If any of the four files does not exist, the execution is halted by \<open>st.stop()\<close>
  after rendering a single error message: no title, no control and no call on any object
  comes before or after it.
\<close>

theorem missing_artifact_halts:
  assumes "crop_yield_model_pkl e = None \<or> scaler_pkl e = None \<or>
           le_area_pkl e = None \<or> le_item_pkl e = None"
  shows "status (app e w) = Stopped \<and>
         (\<exists>m. events (app e w) = [St_error m]) \<and>
         filter is_widget (events (app e w)) = [] \<and>
         filter is_call (events (app e w)) = [] \<and>
         globals (app e w) = None"
proof -
  from assms obtain x where "load_artifacts e = Inl x"
    using missing_file_load by blast
  then have "status (app e w) = Stopped \<and> globals (app e w) = None \<and>
         (\<exists>m. events (app e w) = [St_error m])"
    by (rule load_failed_stops)
  then show ?thesis by auto
qed

theorem missing_artifact_halts_witness:
  "scaler_pkl scaler_missing_env = None \<and>
   app scaler_missing_env example_widgets =
     \<lparr>status = Stopped,
      events = [St_error ''Model files not found! Please run the training script first.''],
      globals = None\<rparr>"
proof -
  have m: "scaler_pkl scaler_missing_env = None"
    by (simp add: scaler_missing_env_def)
  have "status (app scaler_missing_env example_widgets) = Stopped"
    using missing_artifact_halts [of scaler_missing_env example_widgets] m by simp
  moreover have "events (app scaler_missing_env example_widgets) =
      [St_error ''Model files not found! Please run the training script first.'']"
    by (simp add: app_def load_artifacts_def pickle_load_open_def scaler_missing_env_def env_of_def)
  moreover have "globals (app scaler_missing_env example_widgets) = None"
    using missing_artifact_halts [of scaler_missing_env example_widgets] m by simp
  ultimately show ?thesis using m by simp
qed

subsection \<open>A class named "Error"\<close>

text \<open>
  C10. If all four objects load, both class lists are read, and the area encoder's classes
  contain the string "Error", then every press of the button is answered with the message
  that the encoders were not loaded correctly, and no encoder, scaler or model is called,
  whatever was chosen in the controls.
\<close>

theorem genuine_Error_class_blocks:
  assumes "load_artifacts e = Inr arts"
    and "classes (le_area arts) = Inr a"
    and "''Error'' \<in> set a"
    and "classes (le_item arts) = Inr i"
    and "predict_pressed w"
  shows "events (app e w) =
           [St_title title_text, St_markdown intro_text, Sidebar_header ''Input Features'']
           @ controls arts
           @ [Sidebar_button ''Predict Crop Yield'',
              St_error ''Cannot make prediction. Encoders were not loaded correctly.''] \<and>
         filter is_call (events (app e w)) = []"
proof -
  have o: "encoder_options arts = ([], a, i)"
    using assms(2,4) by (rule encoder_options_readable)
  then have b: "''Error'' \<in> set (area_options arts)"
    using assms(3) by (simp add: area_options_def)
  then have "filter is_call (page arts w) = []"
    by (rule page_blocked_no_call)
  then show ?thesis
    using assms(1,5) b o by (simp add: app_loaded page_def predict_button_blocked)
qed

theorem genuine_Error_class_blocks_witness:
  "load_artifacts (env_of error_class_artifacts) = Inr error_class_artifacts \<and>
   classes (le_area error_class_artifacts) = Inr [''Error'', ''Kenya''] \<and>
   classes (le_item error_class_artifacts) = Inr example_items \<and>
   area_choice error_class_artifacts kenya_widgets = Some ''Kenya'' \<and>
   enc_transform (le_area error_class_artifacts) [Some ''Kenya''] = Inr [1] \<and>
   last (events (app (env_of error_class_artifacts) kenya_widgets)) =
     St_error ''Cannot make prediction. Encoders were not loaded correctly.'' \<and>
   filter is_call (events (app (env_of error_class_artifacts) kenya_widgets)) = []"
proof -
  have a: "classes (le_area error_class_artifacts) = Inr [''Error'', ''Kenya'']"
    and i: "classes (le_item error_class_artifacts) = Inr example_items"
    by (simp_all add: error_class_artifacts_def label_encoder_def)
  have m: "''Error'' \<in> set [''Error'', ''Kenya'']" by simp
  have p: "predict_pressed kenya_widgets"
    by (simp add: kenya_widgets_def example_widgets_def)
  have c: "area_choice error_class_artifacts kenya_widgets = Some ''Kenya''"
    by (simp add: area_choice_def area_options_def encoder_options_def selectbox_def
        error_class_artifacts_def label_encoder_def kenya_widgets_def example_widgets_def)
  have t: "enc_transform (le_area error_class_artifacts) [Some ''Kenya''] = Inr [1]"
    by (simp add: error_class_artifacts_def label_encoder_def)
  note r = genuine_Error_class_blocks [OF load_env_of a m i p]
  have "last (events (app (env_of error_class_artifacts) kenya_widgets)) =
     St_error ''Cannot make prediction. Encoders were not loaded correctly.''"
    by (simp add: r [THEN conjunct1])
  with r [THEN conjunct2] a i c t show ?thesis
    by (simp add: load_env_of)
qed

lemma digit_is_digit: "is_digit (digit n)"
proof -
  have "n mod 10 < length ''0123456789''" by simp
  then have "''0123456789'' ! (n mod 10) \<in> set ''0123456789''"
    by (rule nth_mem)
  then show ?thesis by (simp only: is_digit_def digit_def)
qed

lemma dec_small: "n < 10 \<Longrightarrow> dec n = [digit n]"
  by (simp add: dec.simps)

lemma dec_large: "\<not> n < 10 \<Longrightarrow> dec n = dec (n div 10) @ [digit n]"
  by (subst dec.simps) simp

lemma dec_digits: "c \<in> set (dec n) \<Longrightarrow> is_digit c"
proof (induction n rule: dec.induct)
  case (1 n)
  show ?case
  proof (cases "n < 10")
    case True
    with "1.prems" show ?thesis
      by (simp add: dec_small digit_is_digit)
  next
    case False
    with "1.prems" "1.IH" show ?thesis
      by (auto simp: dec_large digit_is_digit)
  qed
qed

lemma dec_not_empty: "dec n \<noteq> []"
  by (cases "n < 10") (simp_all add: dec_small dec_large)

lemma digit_value_table: "\<forall>k\<in>set [0..<10]. digit_value (''0123456789'' ! k) = k"
  by code_simp

lemma digit_value_digit: "digit_value (digit n) = n mod 10"
proof -
  have "n mod 10 \<in> set [0..<10]" by simp
  with digit_value_table show ?thesis
    unfolding digit_def by blast
qed

lemma read_nat_snoc: "read_nat (ds @ [c]) = 10 * read_nat ds + digit_value c"
  by (simp add: read_nat_def)

lemma read_nat_dec: "read_nat (dec n) = n"
proof (induction n rule: dec.induct)
  case (1 n)
  show ?case
  proof (cases "n < 10")
    case True
    then show ?thesis
      by (simp add: dec_small read_nat_def digit_value_digit)
  next
    case False
    with "1.IH" show ?thesis
      by (simp add: dec_large read_nat_snoc digit_value_digit)
  qed
qed

lemma round_half_even_error: "\<bar>of_int (round_half_even y) - y\<bar> \<le> 1 / 2"
proof -
  have "of_int \<lfloor>y\<rfloor> \<le> y" and "y < of_int \<lfloor>y\<rfloor> + 1"
    by linarith+
  then show ?thesis
    by (auto simp: round_half_even_def Let_def)
qed

lemma round_half_even_nonneg: "0 \<le> y \<Longrightarrow> 0 \<le> round_half_even y"
proof -
  assume "0 \<le> y"
  then have "0 \<le> \<lfloor>y\<rfloor>" by simp
  then show ?thesis
    by (auto simp: round_half_even_def Let_def)
qed

lemma round_half_even_nonpos: "y < 0 \<Longrightarrow> round_half_even y \<le> 0"
proof -
  assume "y < 0"
  then have "\<lfloor>y\<rfloor> < 0" by (simp add: floor_less_iff)
  then show ?thesis
    by (auto simp: round_half_even_def Let_def)
qed

lemma dot_no_digit: "\<not> is_digit CHR ''.''"
  by (simp add: is_digit_def)

lemma minus_no_digit: "\<not> is_digit CHR ''-''"
  by (simp add: is_digit_def)

lemma takeWhile_dec: "takeWhile is_digit (dec a @ CHR ''.'' # r) = dec a"
  by (simp add: takeWhile_append2 dec_digits dot_no_digit)

lemma dropWhile_dec: "dropWhile is_digit (dec a @ CHR ''.'' # r) = CHR ''.'' # r"
  by (simp add: dropWhile_append2 dec_digits dot_no_digit)

lemma unsigned_dec: "unsigned_part (dec a @ r) = dec a @ r"
proof (cases "dec a")
  case Nil
  then show ?thesis by (simp add: dec_not_empty)
next
  case (Cons c cs)
  then have "is_digit c"
    using dec_digits [of c a] by simp
  then have "c \<noteq> CHR ''-''"
    using minus_no_digit by auto
  with Cons show ?thesis
    by (simp add: unsigned_part_def)
qed

lemma two_decimals_unsigned:
  "two_decimals (dec a @ CHR ''.'' # [digit b, digit c])"
  by (simp add: two_decimals_def Let_def unsigned_dec takeWhile_dec dropWhile_dec dec_not_empty
      digit_is_digit)

lemma two_decimals_signed:
  "two_decimals (CHR ''-'' # dec a @ CHR ''.'' # [digit b, digit c])"
  by (simp add: two_decimals_def Let_def unsigned_part_def takeWhile_dec dropWhile_dec
      dec_not_empty digit_is_digit)

lemma two_digit_split: "(n::nat) div 100 * 100 + (10 * (n div 10 mod 10) + n mod 10) = n"
proof -
  have "n mod (10 * 10) = 10 * (n div 10 mod 10) + n mod 10"
    by (rule mod_mult2_eq)
  then have "n mod 100 = 10 * (n div 10 mod 10) + n mod 10"
    by simp
  moreover have "n div 100 * 100 + n mod 100 = n"
    by simp
  ultimately show ?thesis by (simp only:)
qed

lemma unsigned_value:
  fixes n :: nat
  shows "(of_nat (n div 100) :: rat) + (10 * of_nat (n div 10 mod 10) + of_nat (n mod 10)) / 100
           = of_nat n / 100"
proof -
  have "(of_nat (n div 100 * 100 + (10 * (n div 10 mod 10) + n mod 10)) :: rat) = of_nat n"
    by (simp only: two_digit_split)
  then have "(of_nat (n div 100) :: rat) * 100 + (10 * of_nat (n div 10 mod 10) + of_nat (n mod 10))
               = of_nat n"
    by simp
  then have "((of_nat (n div 100) :: rat) * 100 + (10 * of_nat (n div 10 mod 10) + of_nat (n mod 10))) / 100
               = of_nat n / 100"
    by (simp only:)
  then show ?thesis
    by (simp add: add_divide_distrib)
qed

lemma read_two_digits: "read_nat [digit b, digit c] = 10 * (b mod 10) + c mod 10"
  by (simp add: read_nat_def digit_value_digit)

lemma decimal_value_unsigned:
  "decimal_value (dec (n div 100) @ CHR ''.'' # [digit (n div 10), digit n]) = of_nat n / 100"
proof -
  have "decimal_value (dec (n div 100) @ CHR ''.'' # [digit (n div 10), digit n]) =
      of_nat (n div 100) + (10 * of_nat (n div 10 mod 10) + of_nat (n mod 10)) / 100"
    by (simp add: decimal_value_def Let_def unsigned_dec takeWhile_dec read_nat_dec
        read_two_digits)
  then show ?thesis
    by (simp only: unsigned_value)
qed

lemma decimal_value_signed:
  "decimal_value (CHR ''-'' # dec (n div 100) @ CHR ''.'' # [digit (n div 10), digit n])
     = - (of_nat n / 100)"
proof -
  have "decimal_value (CHR ''-'' # dec (n div 100) @ CHR ''.'' # [digit (n div 10), digit n]) =
      - (of_nat (n div 100) + (10 * of_nat (n div 10 mod 10) + of_nat (n mod 10)) / 100)"
    by (simp add: decimal_value_def Let_def unsigned_part_def takeWhile_dec read_nat_dec
        read_two_digits)
  then show ?thesis
    by (simp only: unsigned_value)
qed

lemma fixed_2_nonneg:
  "\<not> x < 0 \<Longrightarrow> fixed_2 x =
     dec (nat \<bar>round_half_even (x * 100)\<bar> div 100) @ CHR ''.'' #
       [digit (nat \<bar>round_half_even (x * 100)\<bar> div 10), digit (nat \<bar>round_half_even (x * 100)\<bar>)]"
  by (simp add: fixed_2_def Let_def)

lemma fixed_2_neg:
  "x < 0 \<Longrightarrow> fixed_2 x =
     CHR ''-'' # dec (nat \<bar>round_half_even (x * 100)\<bar> div 100) @ CHR ''.'' #
       [digit (nat \<bar>round_half_even (x * 100)\<bar> div 10), digit (nat \<bar>round_half_even (x * 100)\<bar>)]"
  by (simp add: fixed_2_def Let_def)

lemma decimal_value_fixed_2: "decimal_value (fixed_2 x) = of_int (round_half_even (x * 100)) / 100"
proof (cases "x < 0")
  case True
  then have "round_half_even (x * 100) \<le> 0"
    by (intro round_half_even_nonpos) simp
  then have "(of_nat (nat \<bar>round_half_even (x * 100)\<bar>) :: rat) = - of_int (round_half_even (x * 100))"
    by simp
  then show ?thesis
    by (simp only: fixed_2_neg [OF True] decimal_value_signed)
next
  case False
  then have "0 \<le> round_half_even (x * 100)"
    by (intro round_half_even_nonneg) simp
  then have "(of_nat (nat \<bar>round_half_even (x * 100)\<bar>) :: rat) = of_int (round_half_even (x * 100))"
    by simp
  then show ?thesis
    by (simp only: fixed_2_nonneg [OF False] decimal_value_unsigned)
qed

lemma two_decimals_fixed_2: "two_decimals (fixed_2 x)"
proof (cases "x < 0")
  case True
  show ?thesis
    by (simp only: fixed_2_neg [OF True] two_decimals_signed)
next
  case False
  show ?thesis
    by (simp only: fixed_2_nonneg [OF False] two_decimals_unsigned)
qed

lemma fixed_2_shows: "shows_to_2_places x (fixed_2 x)"
proof -
  have "\<bar>of_int (round_half_even (x * 100)) - x * 100\<bar> \<le> 1 / 2"
    by (rule round_half_even_error)
  then have "- (1 / 2) \<le> of_int (round_half_even (x * 100)) - x * 100"
    and "of_int (round_half_even (x * 100)) - x * 100 \<le> 1 / 2"
    by (simp_all only: abs_le_iff) linarith+
  then have "- (1 / 200) \<le> of_int (round_half_even (x * 100)) / 100 - x"
    and "of_int (round_half_even (x * 100)) / 100 - x \<le> 1 / 200"
    by linarith+
  then have "\<bar>of_int (round_half_even (x * 100)) / 100 - x\<bar> \<le> 1 / 200"
    by (intro abs_leI) linarith+
  then show ?thesis
    by (simp only: shows_to_2_places_def two_decimals_fixed_2 decimal_value_fixed_2)
qed

lemma length_title_from: "length (title_from b s) = length s"
  by (induction s arbitrary: b) simp_all

lemma nth_title_from:
  "i < length s \<Longrightarrow>
   title_from b s ! i =
     (if (if i = 0 then b else is_cased (s ! (i - 1))) then lower (s ! i) else upper (s ! i))"
proof (induction s arbitrary: b i)
  case Nil
  then show ?case by simp
next
  case (Cons c cs)
  show ?case
  proof (cases i)
    case 0
    then show ?thesis by simp
  next
    case (Suc j)
    with Cons.prems have "j < length cs" by simp
    from Cons.IH [OF this, of "is_cased c"] Suc show ?thesis
      by (cases j) simp_all
  qed
qed

lemma of_char_lower: "is_upper c \<Longrightarrow> (of_char (lower c) :: nat) = of_char c + 32"
  by (simp add: lower_def is_upper_def)

lemma of_char_upper:
  assumes "is_lower c"
  shows "(of_char (upper c) :: nat) + 32 = of_char c"
proof -
  from assms have b: "97 \<le> (of_char c :: nat)" "(of_char c :: nat) \<le> 122"
    by (simp_all add: is_lower_def)
  then have "((of_char c :: nat) - 32) mod 256 = of_char c - 32"
    by (intro mod_less) linarith
  with assms b show ?thesis
    by (simp add: upper_def)
qed

lemma same_letter_lower: "same_letter c (lower c)"
  by (cases "is_upper c") (simp_all add: same_letter_def of_char_lower, simp add: lower_def)

lemma same_letter_upper: "same_letter c (upper c)"
  by (cases "is_lower c") (simp_all add: same_letter_def of_char_upper, simp add: upper_def)

lemma lower_not_upper: "\<not> is_upper (lower c)"
proof (cases "is_upper c")
  case True
  then show ?thesis
    using of_char_lower [OF True] by (simp add: is_upper_def)
next
  case False
  then show ?thesis by (simp add: lower_def)
qed

lemma upper_not_lower: "\<not> is_lower (upper c)"
proof (cases "is_lower c")
  case True
  then show ?thesis
    using of_char_upper [OF True] by (simp add: is_lower_def)
next
  case False
  then show ?thesis by (simp add: upper_def)
qed

lemma title_is_title_cased: "title_cased_of s (title s)"
  by (simp add: title_cased_of_def title_def length_title_from nth_title_from
      same_letter_lower same_letter_upper lower_not_upper upper_not_lower)

lemma floor_rat_numeral: "\<lfloor>numeral a / numeral b :: rat\<rfloor> = numeral a div numeral b"
  by (metis floor_divide_of_int_eq of_int_numeral)

lemma floor_rat_neg_numeral:
  "\<lfloor>- (numeral a / numeral b) :: rat\<rfloor> = - numeral a div numeral b"
  by (metis floor_divide_of_int_eq of_int_numeral of_int_minus minus_divide_left)

lemmas fmt_eval = fixed_2_def fmt_comma_0f_def round_half_even_def Let_def dec_small dec_large
  digit_def floor_rat_numeral floor_rat_neg_numeral

lemma fmt_2f_example: "fmt_2f (Finite (2345678 / 1000)) = ''2345.68''"
  by (simp add: fmt_eval)

lemma fmt_2f_double_example:
  "fmt_2f (Finite (161193764751147 / 68719476736)) = ''2345.68''"
  by (simp add: fmt_eval)

lemma titled_ascii: "is_ascii s \<Longrightarrow> titled s = Text (title s)"
  by (simp add: titled_def)

lemma titled_other: "\<not> is_ascii s \<Longrightarrow> titled s = Str_title s"
  by (simp add: titled_def)

lemma title_examples:
  "title ''rice, paddy'' = ''Rice, Paddy''"
  "title ''new zealand'' = ''New Zealand''"
  "title ''maize'' = ''Maize''"
  "title ''UNITED kingdom'' = ''United Kingdom''"
  by code_simp+

lemma fmt_2f_examples:
  "fmt_2f (Finite (1 / 8)) = ''0.12''"
  "fmt_2f (Finite (3 / 8)) = ''0.38''"
  "fmt_2f (Finite (- 3 / 1000)) = ''-0.00''"
  by (simp_all add: fmt_eval)

lemma fmt_comma_examples: "fmt_comma_0f 50000 = ''50,000''" "fmt_comma_0f 1200 = ''1,200''"
  by (simp_all add: fmt_eval)

lemma titled_non_ascii_example:
  "titled (''c'' @ [CHR 0xC3, CHR 0xB4] @ ''te'') = Str_title (''c'' @ [CHR 0xC3, CHR 0xB4] @ ''te'')"
  by (simp add: titled_def is_ascii_def)

lemmas lowercase_defs = lowercase_artifacts_def second_widgets_def example_widgets_def
  label_encoder_def identity_scaler_def constant_model_def
  area_options_def item_options_def encoder_options_def area_choice_def item_choice_def
  selectbox_def

lemma lowercase_item_choice: "item_choice lowercase_artifacts second_widgets = Some ''rice, paddy''"
  by (simp add: lowercase_defs)

lemma lowercase_area_choice: "area_choice lowercase_artifacts second_widgets = Some ''new zealand''"
  by (simp add: lowercase_defs)

lemma lowercase_guard: "''Error'' \<notin> set (area_options lowercase_artifacts)"
  by (simp add: lowercase_defs)

lemma lowercase_block_succeeds:
  "snd (predict_block lowercase_artifacts second_widgets) = Inr ()"
  by (simp add: predict_block_def act_simps subscript0_def choice_title_def
      lowercase_item_choice lowercase_area_choice)
     (simp add: lowercase_artifacts_def label_encoder_def identity_scaler_def
        constant_model_def input_data_def snd_emit)

lemma lowercase_model_first:
  "model_predict (model lowercase_artifacts) scaled = Inr (p # ps) \<Longrightarrow> p = example_prediction"
  by (cases scaled) (auto simp: lowercase_artifacts_def constant_model_def)

lemma fmt_2f_example_prediction: "fmt_2f example_prediction = ''2345.68''"
  by (simp add: example_prediction_def fmt_eval)

lemmas nan_defs = nan_artifacts_def example_widgets_def example_areas_def
  example_items_def label_encoder_def identity_scaler_def constant_model_def
  area_options_def item_options_def encoder_options_def area_choice_def item_choice_def
  selectbox_def

lemma nan_block:
  "predict_block nan_artifacts example_widgets =
     ([Call_le_item_transform [Some ''Maize''], Call_le_area_transform [Some ''Nigeria''],
       Call_scaler_transform
         \<lparr>columns = feature_names,
          rows = [[PyInt 2024, PyFloat 1200, PyFloat 20, PyFloat 50000, PyInt 7, PyInt 3]]\<rparr>,
       Call_model_predict
         [[Finite 2024, Finite 1200, Finite 20, Finite 50000, Finite 7, Finite 3]],
       St_subheader [Text ''Predicted Crop Yield for '', titled ''Maize'', Text '' in '',
                     titled ''Nigeria'', Text '':''],
       St_success ''**nan hg/ha**'',
       St_markdown ''---'',
       St_header ''How this prediction can help:'',
       St_markdown_advice ''nan'' (fmt_comma_0f 50000) (fmt_comma_0f 1200) 20],
      Inr ())"
  by (simp add: predict_block_def act_simps subscript0_def choice_title_def nan_defs
      input_data_def)
     (simp add: emit_def)

subsection \<open>The rendered result\<close>

text \<open>
  C6, as stated, does not hold for every successful prediction. With a model whose first
  output is NaN the body of the \<open>try\<close> completes and the success box reads
  "nan hg/ha", which has no decimal places.
\<close>

theorem result_rendering_counterexample:
  "snd (predict_block nan_artifacts example_widgets) = Inr () \<and>
   St_success ''**nan hg/ha**'' \<in> set (events (app (env_of nan_artifacts) example_widgets)) \<and>
   \<not> two_decimals ''nan''"
proof -
  have g: "''Error'' \<notin> set (area_options nan_artifacts)"
    by (simp add: nan_defs)
  have p: "predict_pressed example_widgets"
    by (simp add: example_widgets_def)
  have "St_success ''**nan hg/ha**'' \<in> set (try_predict nan_artifacts example_widgets)"
    by (simp add: try_predict_def nan_block)
  then have "St_success ''**nan hg/ha**'' \<in> set (events (app (env_of nan_artifacts) example_widgets))"
    using g p by (simp add: app_loaded [OF load_env_of] page_def predict_button_def)
  moreover have "\<not> two_decimals ''nan''"
    by (simp add: two_decimals_def unsigned_part_def is_digit_def Let_def)
  moreover have "snd (predict_block nan_artifacts example_widgets) = Inr ()"
    by (simp add: nan_block)
  ultimately show ?thesis by (intro conjI)
qed

text \<open>
  C6, amended. When the body of the \<open>try\<close> completes, the headline is "Predicted Crop
  Yield for", \<open>str.title()\<close> of the crop name, "in", \<open>str.title()\<close> of the area name and
  a colon; for a name in ASCII that is the title-cased form of the name, and for any other
  name it is left to Python's character database. The success box holds the first value
  the model returned, formatted by \<open>.2f\<close> and followed by " hg/ha", between the bold marks
  of Markdown: a finite value is shown to exactly two decimal places, and negative zero,
  NaN and the infinities are shown as "-0.00", "nan", "inf" and "-inf". The value 2345.678
  is shown as "2345.68 hg/ha".
\<close>

theorem result_rendering:
  assumes "load_artifacts e = Inr arts"
    and "predict_pressed w"
    and "''Error'' \<notin> set (area_options arts)"
    and "snd (predict_block arts w) = Inr u"
    and "item_choice arts w = Some item"
    and "area_choice arts w = Some area"
  shows "(\<exists>area_encoded item_encoded scaled p ps.
            model_predict (model arts) scaled = Inr (p # ps) \<and>
            events (app e w) =
              [St_title title_text, St_markdown intro_text, Sidebar_header ''Input Features'']
              @ fst (encoder_options arts) @ controls arts
              @ [Sidebar_button ''Predict Crop Yield'',
                 Call_le_item_transform [Some item],
                 Call_le_area_transform [Some area],
                 Call_scaler_transform (input_data w area_encoded item_encoded),
                 Call_model_predict scaled,
                 St_subheader [Text ''Predicted Crop Yield for '', titled item, Text '' in '',
                               titled area, Text '':''],
                 St_success (''**'' @ fmt_2f p @ '' hg/ha**''),
                 St_markdown ''---'',
                 St_header ''How this prediction can help:'',
                 St_markdown_advice (fmt_2f p) (fmt_comma_0f (pesticide_tonnes w))
                   (fmt_comma_0f (rainfall w)) (avg_temp w)] \<and>
            (\<forall>x. p = Finite x \<longrightarrow> shows_to_2_places x (fmt_2f p)) \<and>
            (p = NegZero \<longrightarrow> fmt_2f p = ''-0.00'') \<and>
            (p = NaN \<longrightarrow> fmt_2f p = ''nan'') \<and>
            (p = PosInf \<longrightarrow> fmt_2f p = ''inf'') \<and>
            (p = NegInf \<longrightarrow> fmt_2f p = ''-inf''))
         \<and> (is_ascii item \<longrightarrow> (\<exists>t. titled item = Text t \<and> title_cased_of item t))
         \<and> (is_ascii area \<longrightarrow> (\<exists>t. titled area = Text t \<and> title_cased_of area t))
         \<and> (\<not> is_ascii item \<longrightarrow> titled item = Str_title item)
         \<and> (\<not> is_ascii area \<longrightarrow> titled area = Str_title area)
         \<and> fmt_2f (Finite (2345678 / 1000)) @ '' hg/ha'' = ''2345.68 hg/ha''
         \<and> fmt_2f (Finite (161193764751147 / 68719476736)) @ '' hg/ha'' = ''2345.68 hg/ha''"
proof -
  from predict_block_success [OF assms(4)] assms(5,6)
  obtain item_encoded area_encoded scaled p ps where
    m: "model_predict (model arts) scaled = Inr (p # ps)" and
    b: "fst (predict_block arts w) =
             [Call_le_item_transform [Some item],
              Call_le_area_transform [Some area],
              Call_scaler_transform (input_data w area_encoded item_encoded),
              Call_model_predict scaled,
              St_subheader [Text ''Predicted Crop Yield for '', titled item, Text '' in '',
                            titled area, Text '':''],
              St_success (''**'' @ fmt_2f p @ '' hg/ha**''),
              St_markdown ''---'',
              St_header ''How this prediction can help:'',
              St_markdown_advice (fmt_2f p) (fmt_comma_0f (pesticide_tonnes w))
                (fmt_comma_0f (rainfall w)) (avg_temp w)]"
    by auto
  have t: "try_predict arts w = fst (predict_block arts w)"
    using assms(4) by (simp add: try_predict_def)
  have "events (app e w) =
      [St_title title_text, St_markdown intro_text, Sidebar_header ''Input Features'']
      @ fst (encoder_options arts) @ controls arts
      @ [Sidebar_button ''Predict Crop Yield''] @ fst (predict_block arts w)"
    using assms(1-3) t by (simp add: app_loaded page_def predict_button_def)
  with b have ev: "events (app e w) =
              [St_title title_text, St_markdown intro_text, Sidebar_header ''Input Features'']
              @ fst (encoder_options arts) @ controls arts
              @ [Sidebar_button ''Predict Crop Yield'',
                 Call_le_item_transform [Some item],
                 Call_le_area_transform [Some area],
                 Call_scaler_transform (input_data w area_encoded item_encoded),
                 Call_model_predict scaled,
                 St_subheader [Text ''Predicted Crop Yield for '', titled item, Text '' in '',
                               titled area, Text '':''],
                 St_success (''**'' @ fmt_2f p @ '' hg/ha**''),
                 St_markdown ''---'',
                 St_header ''How this prediction can help:'',
                 St_markdown_advice (fmt_2f p) (fmt_comma_0f (pesticide_tonnes w))
                   (fmt_comma_0f (rainfall w)) (avg_temp w)]"
    by simp
  have f: "(\<forall>x. p = Finite x \<longrightarrow> shows_to_2_places x (fmt_2f p)) \<and>
            (p = NegZero \<longrightarrow> fmt_2f p = ''-0.00'') \<and>
            (p = NaN \<longrightarrow> fmt_2f p = ''nan'') \<and>
            (p = PosInf \<longrightarrow> fmt_2f p = ''inf'') \<and>
            (p = NegInf \<longrightarrow> fmt_2f p = ''-inf'')"
    by (cases p) (simp_all add: fixed_2_shows)
  have first: "\<exists>area_encoded item_encoded scaled p ps.
            model_predict (model arts) scaled = Inr (p # ps) \<and>
            events (app e w) =
              [St_title title_text, St_markdown intro_text, Sidebar_header ''Input Features'']
              @ fst (encoder_options arts) @ controls arts
              @ [Sidebar_button ''Predict Crop Yield'',
                 Call_le_item_transform [Some item],
                 Call_le_area_transform [Some area],
                 Call_scaler_transform (input_data w area_encoded item_encoded),
                 Call_model_predict scaled,
                 St_subheader [Text ''Predicted Crop Yield for '', titled item, Text '' in '',
                               titled area, Text '':''],
                 St_success (''**'' @ fmt_2f p @ '' hg/ha**''),
                 St_markdown ''---'',
                 St_header ''How this prediction can help:'',
                 St_markdown_advice (fmt_2f p) (fmt_comma_0f (pesticide_tonnes w))
                   (fmt_comma_0f (rainfall w)) (avg_temp w)] \<and>
            (\<forall>x. p = Finite x \<longrightarrow> shows_to_2_places x (fmt_2f p)) \<and>
            (p = NegZero \<longrightarrow> fmt_2f p = ''-0.00'') \<and>
            (p = NaN \<longrightarrow> fmt_2f p = ''nan'') \<and>
            (p = PosInf \<longrightarrow> fmt_2f p = ''inf'') \<and>
            (p = NegInf \<longrightarrow> fmt_2f p = ''-inf'')"
    using m ev f by blast
  have n1: "is_ascii item \<longrightarrow> (\<exists>t. titled item = Text t \<and> title_cased_of item t)"
    and n2: "is_ascii area \<longrightarrow> (\<exists>t. titled area = Text t \<and> title_cased_of area t)"
    and n3: "\<not> is_ascii item \<longrightarrow> titled item = Str_title item"
    and n4: "\<not> is_ascii area \<longrightarrow> titled area = Str_title area"
    by (simp_all add: titled_ascii titled_other title_is_title_cased)
  have ex: "fmt_2f (Finite (2345678 / 1000)) @ '' hg/ha'' = ''2345.68 hg/ha''"
    unfolding fmt_2f_example by simp
  have ex2: "fmt_2f (Finite (161193764751147 / 68719476736)) @ '' hg/ha'' = ''2345.68 hg/ha''"
    unfolding fmt_2f_double_example by simp
  from first n1 n2 n3 n4 ex ex2 show ?thesis
    by (intro conjI)
qed

theorem result_rendering_witness:
  "St_subheader [Text ''Predicted Crop Yield for '', Text ''Rice, Paddy'', Text '' in '',
                 Text ''New Zealand'', Text '':'']
     \<in> set (events (app (env_of lowercase_artifacts) second_widgets)) \<and>
   St_success ''**2345.68 hg/ha**''
     \<in> set (events (app (env_of lowercase_artifacts) second_widgets)) \<and>
   title_cased_of ''rice, paddy'' ''Rice, Paddy'' \<and>
   title_cased_of ''new zealand'' ''New Zealand'' \<and>
   shows_to_2_places (161193764751147 / 68719476736) ''2345.68''"
proof -
  have p: "predict_pressed second_widgets"
    by (simp add: second_widgets_def example_widgets_def)
  have a: "is_ascii ''rice, paddy''" "is_ascii ''new zealand''"
    by (simp_all add: is_ascii_def)
  note r = result_rendering [OF load_env_of p lowercase_guard lowercase_block_succeeds
      lowercase_item_choice lowercase_area_choice]
  from r [THEN conjunct1]
  obtain area_encoded item_encoded scaled q qs where
    m: "model_predict (model lowercase_artifacts) scaled = Inr (q # qs)" and
    ev: "events (app (env_of lowercase_artifacts) second_widgets) =
           [St_title title_text, St_markdown intro_text, Sidebar_header ''Input Features'']
           @ fst (encoder_options lowercase_artifacts) @ controls lowercase_artifacts
           @ [Sidebar_button ''Predict Crop Yield'',
              Call_le_item_transform [Some ''rice, paddy''],
              Call_le_area_transform [Some ''new zealand''],
              Call_scaler_transform (input_data second_widgets area_encoded item_encoded),
              Call_model_predict scaled,
              St_subheader [Text ''Predicted Crop Yield for '', titled ''rice, paddy'',
                            Text '' in '', titled ''new zealand'', Text '':''],
              St_success (''**'' @ fmt_2f q @ '' hg/ha**''),
              St_markdown ''---'',
              St_header ''How this prediction can help:'',
              St_markdown_advice (fmt_2f q) (fmt_comma_0f (pesticide_tonnes second_widgets))
                (fmt_comma_0f (rainfall second_widgets)) (avg_temp second_widgets)]" and
    fin: "\<forall>x. q = Finite x \<longrightarrow> shows_to_2_places x (fmt_2f q)"
    by blast
  from m have q: "q = example_prediction"
    by (rule lowercase_model_first)
  then have f: "fmt_2f q = ''2345.68''"
    by (simp only: fmt_2f_example_prediction)
  from fin q f have s: "shows_to_2_places (161193764751147 / 68719476736) ''2345.68''"
    unfolding example_prediction_def by metis
  have t1: "titled ''rice, paddy'' = Text ''Rice, Paddy''"
    and t2: "titled ''new zealand'' = Text ''New Zealand''"
    using a by (simp_all only: titled_ascii title_examples)
  from r [THEN conjunct2, THEN conjunct1] a(1) t1
  have c1: "title_cased_of ''rice, paddy'' ''Rice, Paddy''"
    by auto
  from r [THEN conjunct2, THEN conjunct2, THEN conjunct1] a(2) t2
  have c2: "title_cased_of ''new zealand'' ''New Zealand''"
    by auto
  have "St_subheader [Text ''Predicted Crop Yield for '', Text ''Rice, Paddy'', Text '' in '',
                 Text ''New Zealand'', Text '':'']
     \<in> set (events (app (env_of lowercase_artifacts) second_widgets))"
    by (simp add: ev t1 t2)
  moreover have "St_success ''**2345.68 hg/ha**''
     \<in> set (events (app (env_of lowercase_artifacts) second_widgets))"
    by (simp add: ev f)
  ultimately show ?thesis
    using c1 c2 s by (intro conjI)
qed

lemma scaler_missing_load:
  "load_artifacts scaler_missing_env =
     Inl (FileNotFoundError (''[Errno 2] No such file or directory: '' @ sq @ ''scaler.pkl'' @ sq))"
  by (simp add: load_artifacts_def pickle_load_open_def scaler_missing_env_def env_of_def)

subsection \<open>What the error messages contain\<close>

text \<open>
  C4, as the specification states it, does not hold. When \<open>scaler.pkl\<close> does not exist,
  \<open>open\<close> raises \<open>FileNotFoundError\<close> with the text "[Errno 2] No such file or
  directory: 'scaler.pkl'", and the message shown is the fixed text of line 13, which does
  not contain it. When the class list of an encoder cannot be read, the message shown is
  the fixed text of line 39, which does not contain the text of the exception either.
\<close>

theorem error_message_text_counterexample:
  "load_artifacts scaler_missing_env =
     Inl (FileNotFoundError (''[Errno 2] No such file or directory: '' @ sq @ ''scaler.pkl'' @ sq)) \<and>
   events (app scaler_missing_env example_widgets) =
     [St_error ''Model files not found! Please run the training script first.''] \<and>
   \<not> sublist (''[Errno 2] No such file or directory: '' @ sq @ ''scaler.pkl'' @ sq)
       ''Model files not found! Please run the training script first.'' \<and>
   classes (le_item unreadable_artifacts) = Inl (Exception ''object has no attribute classes_'') \<and>
   filter is_error (events (app (env_of unreadable_artifacts) (example_widgets\<lparr>predict_pressed := False\<rparr>))) =
     [Sidebar_error ''Error reading encoder classes.''] \<and>
   \<not> sublist ''object has no attribute classes_'' ''Error reading encoder classes.''"
proof -
  have n1: "\<not> sublist (''[Errno 2] No such file or directory: '' @ sq @ ''scaler.pkl'' @ sq)
       ''Model files not found! Please run the training script first.''"
  proof
    assume "sublist (''[Errno 2] No such file or directory: '' @ sq @ ''scaler.pkl'' @ sq)
       ''Model files not found! Please run the training script first.''"
    then have "set (''[Errno 2] No such file or directory: '' @ sq @ ''scaler.pkl'' @ sq)
       \<subseteq> set ''Model files not found! Please run the training script first.''"
      by (rule set_mono_sublist)
    then show False by simp
  qed
  have n2: "\<not> sublist ''object has no attribute classes_'' ''Error reading encoder classes.''"
  proof
    assume "sublist ''object has no attribute classes_'' ''Error reading encoder classes.''"
    then have "set ''object has no attribute classes_'' \<subseteq> set ''Error reading encoder classes.''"
      by (rule set_mono_sublist)
    then show False by simp
  qed
  have e1: "events (app scaler_missing_env example_widgets) =
     [St_error ''Model files not found! Please run the training script first.'']"
    by (simp add: app_def scaler_missing_load)
  have c: "classes (le_item unreadable_artifacts) = Inl (Exception ''object has no attribute classes_'')"
    by (simp add: unreadable_artifacts_def unreadable_encoder_def)
  have e2: "filter is_error (events (app (env_of unreadable_artifacts) (example_widgets\<lparr>predict_pressed := False\<rparr>))) =
     [Sidebar_error ''Error reading encoder classes.'']"
    by (simp add: app_loaded [OF load_env_of] page_def predict_button_def controls_def
        encoder_options_unreadable [OF disjI2, OF c] example_widgets_def)
  from scaler_missing_load e1 n1 c e2 n2 show ?thesis by blast
qed

text \<open>
  C4, amended. The message for a failure to load that is not a \<open>FileNotFoundError\<close> and
  the message for a failed prediction end with the text of the exception. The message for a
  \<open>FileNotFoundError\<close> at startup and the message for unreadable encoder classes are
  fixed texts, the same whatever the exception says.
\<close>

theorem error_messages_exception_text:
  "(load_artifacts e = Inl (Exception t) \<longrightarrow>
      events (app e w) = [St_error (''An error occurred loading files: '' @ t)] \<and>
      sublist t (''An error occurred loading files: '' @ t))
   \<and>
   (load_artifacts e = Inr arts \<and> predict_pressed w \<and> ''Error'' \<notin> set (area_options arts) \<and>
    snd (predict_block arts w) = Inl x \<longrightarrow>
      last (events (app e w)) = St_error (''An error occurred during prediction: '' @ exn_text x) \<and>
      sublist (exn_text x) (''An error occurred during prediction: '' @ exn_text x))
   \<and>
   (load_artifacts e = Inl (FileNotFoundError t) \<longrightarrow>
      events (app e w) = [St_error ''Model files not found! Please run the training script first.''])
   \<and>
   (classes (le_area arts) = Inl x \<or> classes (le_item arts) = Inl x \<longrightarrow>
      fst (encoder_options arts) = [Sidebar_error ''Error reading encoder classes.''])"
proof (intro conjI impI)
  assume "load_artifacts e = Inl (Exception t)"
  then show "events (app e w) = [St_error (''An error occurred loading files: '' @ t)]"
    by (simp add: app_def)
next
  show "sublist t (''An error occurred loading files: '' @ t)"
    by (rule sublist_append_leftI)
next
  assume "load_artifacts e = Inr arts \<and> predict_pressed w \<and> ''Error'' \<notin> set (area_options arts) \<and>
    snd (predict_block arts w) = Inl x"
  then show "last (events (app e w)) = St_error (''An error occurred during prediction: '' @ exn_text x)"
    by (simp add: app_loaded page_def predict_button_def try_predict_raised)
next
  show "sublist (exn_text x) (''An error occurred during prediction: '' @ exn_text x)"
    by (rule sublist_append_leftI)
next
  assume "load_artifacts e = Inl (FileNotFoundError t)"
  then show "events (app e w) = [St_error ''Model files not found! Please run the training script first.'']"
    by (simp add: app_def)
next
  assume "classes (le_area arts) = Inl x \<or> classes (le_item arts) = Inl x"
  then show "fst (encoder_options arts) = [Sidebar_error ''Error reading encoder classes.'']"
    by (simp add: encoder_options_unreadable)
qed

lemma corrupt_model_load: "load_artifacts corrupt_model_env = Inl (Exception ''invalid load key'')"
  by (simp add: load_artifacts_def pickle_load_open_def corrupt_model_env_def env_of_def)

lemma failing_block_raises:
  "snd (predict_block failing_artifacts example_widgets) =
     Inl (Exception ''X has 6 features, but LinearRegression is expecting 5 features as input.'')"
  by (simp add: failing_block)

lemma failing_guard: "''Error'' \<notin> set (area_options failing_artifacts)"
  by (simp add: failing_artifacts_def example_defs)

theorem error_messages_exception_text_witness:
  "events (app corrupt_model_env example_widgets) =
     [St_error ''An error occurred loading files: invalid load key''] \<and>
   last (events (app (env_of failing_artifacts) example_widgets)) =
     St_error (''An error occurred during prediction: ''
       @ ''X has 6 features, but LinearRegression is expecting 5 features as input.'') \<and>
   events (app scaler_missing_env example_widgets) =
     [St_error ''Model files not found! Please run the training script first.''] \<and>
   fst (encoder_options unreadable_artifacts) = [Sidebar_error ''Error reading encoder classes.'']"
proof -
  have p: "predict_pressed example_widgets"
    by (simp add: example_widgets_def)
  have c: "classes (le_item unreadable_artifacts) = Inl (Exception ''object has no attribute classes_'')"
    by (simp add: unreadable_artifacts_def unreadable_encoder_def)
  have "events (app corrupt_model_env example_widgets) =
     [St_error ''An error occurred loading files: invalid load key'']"
    using error_messages_exception_text
      [of corrupt_model_env "''invalid load key''" example_widgets, THEN conjunct1]
      corrupt_model_load by simp
  moreover have "last (events (app (env_of failing_artifacts) example_widgets)) =
     St_error (''An error occurred during prediction: ''
       @ ''X has 6 features, but LinearRegression is expecting 5 features as input.'')"
    using error_messages_exception_text
      [of "env_of failing_artifacts" _ example_widgets failing_artifacts
          "Exception ''X has 6 features, but LinearRegression is expecting 5 features as input.''",
        THEN conjunct2, THEN conjunct1]
      load_env_of p failing_guard failing_block_raises by simp
  moreover have "events (app scaler_missing_env example_widgets) =
     [St_error ''Model files not found! Please run the training script first.'']"
    using error_messages_exception_text
      [of scaler_missing_env "''[Errno 2] No such file or directory: '' @ sq @ ''scaler.pkl'' @ sq"
          example_widgets, THEN conjunct2, THEN conjunct2, THEN conjunct1]
      scaler_missing_load by simp
  moreover have "fst (encoder_options unreadable_artifacts) =
     [Sidebar_error ''Error reading encoder classes.'']"
    using error_messages_exception_text
      [of _ _ _ unreadable_artifacts "Exception ''object has no attribute classes_''",
        THEN conjunct2, THEN conjunct2, THEN conjunct2]
      c by simp
  ultimately show ?thesis by blast
qed

subsection \<open>The two option lists\<close>

text \<open>
  C9, as stated, does not hold. With an area encoder whose only learned class is the string
  "Error" and an ordinary item encoder, both reads succeed, the area list is the
  one-element list "Error" and the item list is not. With the two encoders exchanged, the
  item list is the one-element list "Error" while the area list does not contain "Error",
  so the guard lets the prediction run.
\<close>

theorem option_lists_counterexample:
  "area_options error_area_artifacts = [''Error''] \<and>
   item_options error_area_artifacts \<noteq> [''Error''] \<and>
   item_options error_item_artifacts = [''Error''] \<and>
   area_options error_item_artifacts \<noteq> [''Error''] \<and>
   ''Error'' \<notin> set (area_options error_item_artifacts)"
  by (simp add: error_area_artifacts_def error_item_artifacts_def label_encoder_def
      area_options_def item_options_def encoder_options_def example_items_def example_areas_def)

text \<open>
  C9, amended. When reading the classes fails, both option lists are set to the one-element
  list "Error" together and a press of the button is answered by the guard. When it
  succeeds, each list is its encoder's class list. Provided that neither encoder's class
  list is itself the one-element list "Error", the area list is the one-element list "Error"
  exactly when the item list is, and the guard answers every press made while the item list
  is in that state.
\<close>

theorem option_lists_error_state:
  "(classes (le_area arts) = Inl x \<or> classes (le_item arts) = Inl x \<longrightarrow>
      area_options arts = [''Error''] \<and> item_options arts = [''Error''] \<and>
      (predict_pressed w \<longrightarrow>
         predict_button arts w =
           [Sidebar_button ''Predict Crop Yield'',
            St_error ''Cannot make prediction. Encoders were not loaded correctly.'']))
   \<and>
   (classes (le_area arts) = Inr a \<and> classes (le_item arts) = Inr i \<longrightarrow>
      area_options arts = a \<and> item_options arts = i)
   \<and>
   (classes (le_area arts) \<noteq> Inr [''Error''] \<and> classes (le_item arts) \<noteq> Inr [''Error''] \<longrightarrow>
      (area_options arts = [''Error'']) = (item_options arts = [''Error'']) \<and>
      (item_options arts = [''Error''] \<and> predict_pressed w \<longrightarrow>
         predict_button arts w =
           [Sidebar_button ''Predict Crop Yield'',
            St_error ''Cannot make prediction. Encoders were not loaded correctly.'']))"
proof (intro conjI impI)
  assume f: "classes (le_area arts) = Inl x \<or> classes (le_item arts) = Inl x"
  then show a: "area_options arts = [''Error'']" and "item_options arts = [''Error'']"
    by (simp_all add: area_options_def item_options_def encoder_options_unreadable)
  assume "predict_pressed w"
  with a show "predict_button arts w =
           [Sidebar_button ''Predict Crop Yield'',
            St_error ''Cannot make prediction. Encoders were not loaded correctly.'']"
    by (simp add: predict_button_def)
next
  assume "classes (le_area arts) = Inr a \<and> classes (le_item arts) = Inr i"
  then show "area_options arts = a" and "item_options arts = i"
    by (simp_all add: area_options_def item_options_def encoder_options_def)
next
  assume n: "classes (le_area arts) \<noteq> Inr [''Error''] \<and> classes (le_item arts) \<noteq> Inr [''Error'']"
  then show "(area_options arts = [''Error'']) = (item_options arts = [''Error''])"
    by (auto simp: area_options_def item_options_def encoder_options_def split: sum.splits)
  assume "item_options arts = [''Error''] \<and> predict_pressed w"
  with n have "''Error'' \<in> set (area_options arts)" and "predict_pressed w"
    by (auto simp: area_options_def item_options_def encoder_options_def split: sum.splits)
  then show "predict_button arts w =
           [Sidebar_button ''Predict Crop Yield'',
            St_error ''Cannot make prediction. Encoders were not loaded correctly.'']"
    by (simp add: predict_button_def)
qed

theorem option_lists_error_state_witness:
  "area_options unreadable_artifacts = [''Error''] \<and>
   item_options unreadable_artifacts = [''Error''] \<and>
   predict_button unreadable_artifacts example_widgets =
     [Sidebar_button ''Predict Crop Yield'',
      St_error ''Cannot make prediction. Encoders were not loaded correctly.''] \<and>
   area_options example_artifacts = example_areas \<and>
   item_options example_artifacts = example_items \<and>
   (area_options example_artifacts = [''Error'']) = (item_options example_artifacts = [''Error''])"
proof -
  have p: "predict_pressed example_widgets"
    by (simp add: example_widgets_def)
  have c: "classes (le_item unreadable_artifacts) = Inl (Exception ''object has no attribute classes_'')"
    by (simp add: unreadable_artifacts_def unreadable_encoder_def)
  have r: "classes (le_area example_artifacts) = Inr example_areas"
    "classes (le_item example_artifacts) = Inr example_items"
    by (simp_all add: example_artifacts_def label_encoder_def)
  have n: "classes (le_area example_artifacts) \<noteq> Inr [''Error'']"
    "classes (le_item example_artifacts) \<noteq> Inr [''Error'']"
    by (simp_all add: r example_areas_def example_items_def)
  have "area_options unreadable_artifacts = [''Error''] \<and>
   item_options unreadable_artifacts = [''Error''] \<and>
   predict_button unreadable_artifacts example_widgets =
     [Sidebar_button ''Predict Crop Yield'',
      St_error ''Cannot make prediction. Encoders were not loaded correctly.'']"
    using option_lists_error_state
      [of unreadable_artifacts "Exception ''object has no attribute classes_''" example_widgets,
        THEN conjunct1] c p by simp
  moreover have "area_options example_artifacts = example_areas \<and>
   item_options example_artifacts = example_items"
    using option_lists_error_state
      [of example_artifacts _ _ example_areas example_items, THEN conjunct2, THEN conjunct1] r
    by simp
  moreover have "(area_options example_artifacts = [''Error'']) =
      (item_options example_artifacts = [''Error''])"
    using option_lists_error_state
      [of example_artifacts _ example_widgets, THEN conjunct2, THEN conjunct2] n
    by simp
  ultimately show ?thesis by blast
qed

end
